theory Spec2Isabelle
  imports Main "HOL-Library.Sublist"
begin

section \<open>C library string functions used by both binaries\<close>

text \<open>
  C strings are NUL-terminated byte arrays; a non-null \<open>const char *\<close> is modelled as a
  \<open>string\<close> (the bytes before the terminator) and a possibly-null pointer as
  \<open>string option\<close>. Neither binary calls \<open>setlocale\<close>, so the case mapping is the one of
  the "C" locale: \<open>A\<close>..\<open>Z\<close> (65..90) go to \<open>a\<close>..\<open>z\<close>, every other byte is kept.
\<close>

definition tolower :: "char \<Rightarrow> char" where
  "tolower c = (let n = (of_char c :: nat) in if 65 \<le> n \<and> n \<le> 90 then char_of (n + 32) else c)"

text \<open>\<open>starts_with_ci needle h\<close>: the bytes at \<open>h\<close> match \<open>needle\<close>, ignoring case.\<close>

fun starts_with_ci :: "string \<Rightarrow> string \<Rightarrow> bool" where
  "starts_with_ci [] h = True"
| "starts_with_ci (n # ns) [] = False"
| "starts_with_ci (n # ns) (h # hs) = (tolower n = tolower h \<and> starts_with_ci ns hs)"

text \<open>
  \<open>strcasestr(haystack, needle)\<close>: a pointer to the first case-insensitive occurrence of
  \<open>needle\<close> (here: the rest of the haystack from that position), or NULL (\<open>None\<close>).
\<close>

fun strcasestr :: "string \<Rightarrow> string \<Rightarrow> string option" where
  "strcasestr [] needle = (if needle = [] then Some [] else None)"
| "strcasestr (h # hs) needle =
     (if starts_with_ci needle (h # hs) then Some (h # hs) else strcasestr hs needle)"

text \<open>
  \<open>_stricmp(a, b)\<close>: compares the lower-cased bytes; the result is negative, zero or
  positive as the first string is smaller than, equal to or greater than the second (here
  -1, 0, 1). Where one string ends first its terminator, which is smaller than any byte of
  a string, decides.
\<close>

fun stricmp :: "string \<Rightarrow> string \<Rightarrow> int" where
  "stricmp [] [] = 0"
| "stricmp [] (b # bs) = - 1"
| "stricmp (a # as) [] = 1"
| "stricmp (a # as) (b # bs) =
     (if tolower a \<noteq> tolower b then
        (if (of_char (tolower a) :: nat) < of_char (tolower b) then - 1 else 1)
      else stricmp as bs)"

section \<open>linux-fast-paste.c: the terminal classifier\<close>

definition terminal_classes :: "string list" where
  "terminal_classes =
     [''konsole'', ''gnome-terminal'', ''terminal'', ''kitty'', ''alacritty'',
      ''terminator'', ''xterm'', ''urxvt'', ''rxvt'', ''tilix'', ''terminology'',
      ''wezterm'', ''foot'', ''st'', ''yakuake'', ''ghostty'', ''guake'', ''tilda'',
      ''hyper'', ''tabby'', ''sakura'', ''warp'']"

text \<open>The \<open>for\<close> loop of \<open>is_terminal\<close> over the entries that are still to be tried.\<close>

fun is_terminal_loop :: "string list \<Rightarrow> string \<Rightarrow> bool" where
  "is_terminal_loop [] wm_class = False"
| "is_terminal_loop (t # ts) wm_class =
     (if strcasestr wm_class t \<noteq> None then True else is_terminal_loop ts wm_class)"

text \<open>\<open>is_terminal\<close> returns the C truth values 1 and 0, written \<open>True\<close> and \<open>False\<close>.\<close>

definition is_terminal :: "string option \<Rightarrow> bool" where
  "is_terminal wm_class =
     (case wm_class of None \<Rightarrow> False | Some s \<Rightarrow> is_terminal_loop terminal_classes s)"

section \<open>linux-fast-paste.c: the environment and the calls made into it\<close>

text \<open>
  Everything the program does beyond computing is a call into Xlib, the kernel or libc.
  A run is modelled by its exit status and the list of these calls in program order; what
  each call returns is read from an \<open>environment\<close>, so that every branch of the source
  is a branch of the model. \<open>Window\<close> is an \<open>unsigned long\<close>, an integer from 0 to
  \<open>2 ^ 64 - 1\<close>; \<open>Atom\<close> and \<open>KeyCode\<close> are unsigned as well. The X constant
  \<open>None\<close> is 0 and \<open>CurrentTime\<close> is 0.
\<close>

type_synonym Window = int
type_synonym Atom = nat
type_synonym KeyCode = nat

datatype KeySym = XK_Control_L | XK_Shift_L | XK_v

datatype event_mask = SubstructureNotifyMask | SubstructureRedirectMask

record XClientMessageEvent =
  xclient_window :: Window
  xclient_message_type :: Atom
  xclient_format :: nat
  xclient_data_l :: "nat list"

record uinput_setup =
  id_bustype :: nat
  id_vendor :: nat
  id_product :: nat
  setup_name :: string

record input_event =
  ie_type :: nat
  ie_code :: nat
  ie_value :: int

datatype ioctl_request =
    UI_SET_EVBIT nat
  | UI_SET_KEYBIT nat
  | UI_DEV_SETUP uinput_setup
  | UI_DEV_CREATE
  | UI_DEV_DESTROY

datatype call =
    XOpenDisplay
  | XTestQueryExtension
  | XCloseDisplay
  | XInternAtom string bool
  | XGetWindowProperty Window Atom
  | XFree
  | XGetInputFocus
  | XSendEvent Window "event_mask list" XClientMessageEvent
  | XFlush
  | XSetInputFocus Window
  | XGetClassHint Window
  | XKeysymToKeycode KeySym
  | XTestFakeKeyEvent KeyCode bool
  | Usleep nat
  | Open string
  | Ioctl int ioctl_request
  | Write int input_event
  | Close int
  | Fprintf_stderr string

text \<open>
  The environment of one run. \<open>HAVE_UINPUT\<close> is the build-time macro. \<open>open_ret\<close> is
  what \<open>open("/dev/uinput", ...)\<close> returns and \<open>strerror_errno\<close> the message for its
  \<open>errno\<close>; \<open>ioctl_ret\<close> is the return value of each \<open>ioctl\<close>. \<open>get_window_property\<close>
  is \<open>None\<close> when \<open>XGetWindowProperty\<close> does not return \<open>Success\<close> or leaves \<open>data\<close>
  null, and otherwise the items read (\<open>nitems\<close> is their number). \<open>get_class_hint\<close>
  is \<open>None\<close> when \<open>XGetClassHint\<close> returns 0, otherwise \<open>(res_name, res_class)\<close>.
\<close>

record environment =
  HAVE_UINPUT :: bool
  open_ret :: int
  strerror_errno :: string
  ioctl_ret :: "ioctl_request \<Rightarrow> int"
  open_display :: bool
  xtest_query_extension :: bool
  default_root_window :: Window
  intern_atom :: "string \<Rightarrow> bool \<Rightarrow> Atom"
  get_window_property :: "Window list option"
  get_input_focus :: Window
  get_class_hint :: "Window \<Rightarrow> (string option \<times> string option) option"
  keysym_to_keycode :: "KeySym \<Rightarrow> KeyCode"

text \<open>Constants of \<open>linux/input-event-codes.h\<close> and \<open>linux/input.h\<close>.\<close>

definition EV_SYN :: nat where "EV_SYN = 0"
definition EV_KEY :: nat where "EV_KEY = 1"
definition SYN_REPORT :: nat where "SYN_REPORT = 0"
definition KEY_LEFTCTRL :: nat where "KEY_LEFTCTRL = 29"
definition KEY_LEFTSHIFT :: nat where "KEY_LEFTSHIFT = 42"
definition KEY_V :: nat where "KEY_V = 47"
definition BUS_USB :: nat where "BUS_USB = 3"

subsection \<open>\<open>strtoul(s, NULL, 0)\<close>\<close>

text \<open>
  ISO C \<open>strtoul\<close> with base 0 and a 64-bit \<open>unsigned long\<close>: leading white space is
  skipped, a sign is optional, \<open>0x\<close>/\<open>0X\<close> before a hexadecimal digit selects base 16, a
  leading \<open>0\<close> base 8, anything else base 10; the longest run of digits of that base is
  read; no digits give 0; a value above \<open>ULONG_MAX\<close> gives \<open>ULONG_MAX\<close>; a minus sign
  negates modulo \<open>2 ^ 64\<close>.
\<close>

definition ULONG_MAX :: int where "ULONG_MAX = 2 ^ 64 - 1"

definition isspace :: "char \<Rightarrow> bool" where
  "isspace c = (let n = (of_char c :: nat) in n = 32 \<or> (9 \<le> n \<and> n \<le> 13))"

definition digit_value :: "char \<Rightarrow> nat option" where
  "digit_value c =
     (let n = (of_char c :: nat)
      in if 48 \<le> n \<and> n \<le> 57 then Some (n - 48)
         else if 97 \<le> n \<and> n \<le> 122 then Some (n - 87)
         else if 65 \<le> n \<and> n \<le> 90 then Some (n - 55)
         else None)"

fun strtoul_digits :: "nat \<Rightarrow> string \<Rightarrow> int \<Rightarrow> int" where
  "strtoul_digits base [] acc = acc"
| "strtoul_digits base (c # cs) acc =
     (case digit_value c of
        None \<Rightarrow> acc
      | Some d \<Rightarrow> if d < base then strtoul_digits base cs (acc * int base + int d) else acc)"

definition has_hex_prefix :: "string \<Rightarrow> bool" where
  "has_hex_prefix s =
     (case s of
        c0 # x # d # _ \<Rightarrow>
          c0 = CHR ''0'' \<and> (x = CHR ''x'' \<or> x = CHR ''X'')
          \<and> (case digit_value d of None \<Rightarrow> False | Some v \<Rightarrow> v < 16)
      | _ \<Rightarrow> False)"

definition strtoul :: "string \<Rightarrow> int" where
  "strtoul s =
     (let s1 = dropWhile isspace s;
          neg = (case s1 of c # _ \<Rightarrow> c = CHR ''-'' | [] \<Rightarrow> False);
          s2 = (case s1 of c # cs \<Rightarrow> if c = CHR ''-'' \<or> c = CHR ''+'' then cs else s1 | [] \<Rightarrow> s1);
          n = (if has_hex_prefix s2 then strtoul_digits 16 (drop 2 s2) 0
               else if (case s2 of c # _ \<Rightarrow> c = CHR ''0'' | [] \<Rightarrow> False) then strtoul_digits 8 s2 0
               else strtoul_digits 10 s2 0)
      in if ULONG_MAX < n then ULONG_MAX
         else if neg then (2 ^ 64 - n) mod 2 ^ 64
         else n)"

subsection \<open>\<open>get_active_window\<close> and \<open>activate_window\<close>\<close>

text \<open>The fallback at the end of \<open>get_active_window\<close>: \<open>XGetInputFocus\<close>.\<close>

definition focus_fallback :: "environment \<Rightarrow> call list \<Rightarrow> Window \<times> call list" where
  "focus_fallback e t = (get_input_focus e, t @ [XGetInputFocus])"

definition get_active_window :: "environment \<Rightarrow> Window \<times> call list" where
  "get_active_window e =
     (let prop = intern_atom e ''_NET_ACTIVE_WINDOW'' True;
          t0 = [XInternAtom ''_NET_ACTIVE_WINDOW'' True]
      in if prop \<noteq> 0 then
           (let t1 = t0 @ [XGetWindowProperty (default_root_window e) prop]
            in case get_window_property e of
                 None \<Rightarrow> focus_fallback e t1
               | Some items \<Rightarrow>
                   (let win = (case items of [] \<Rightarrow> 0 | w # _ \<Rightarrow> w);
                        t2 = t1 @ [XFree]
                    in if win \<noteq> 0 then (win, t2) else focus_fallback e t2))
         else focus_fallback e t0)"

definition activate_window :: "environment \<Rightarrow> Window \<Rightarrow> call list" where
  "activate_window e win =
     (let net_active = intern_atom e ''_NET_ACTIVE_WINDOW'' False;
          ev = \<lparr>xclient_window = win, xclient_message_type = net_active,
                xclient_format = 32, xclient_data_l = [2, 0, 0, 0, 0]\<rparr>
      in [XInternAtom ''_NET_ACTIVE_WINDOW'' False,
          XSendEvent (default_root_window e)
            [SubstructureNotifyMask, SubstructureRedirectMask] ev,
          XFlush,
          Usleep 50000,
          XSetInputFocus win,
          XFlush,
          Usleep 20000])"

subsection \<open>The virtual-device backend\<close>

definition emit :: "int \<Rightarrow> nat \<Rightarrow> nat \<Rightarrow> int \<Rightarrow> call list" where
  "emit fd type code val = [Write fd \<lparr>ie_type = type, ie_code = code, ie_value = val\<rparr>]"

text \<open>
  A chain \<open>ioctl(..) < 0 || ioctl(..) < 0 || ...\<close>: the calls are made in order up to the
  first one that fails; the result says whether one failed.
\<close>

fun ioctl_chain :: "environment \<Rightarrow> int \<Rightarrow> ioctl_request list \<Rightarrow> bool \<times> call list" where
  "ioctl_chain e fd [] = (False, [])"
| "ioctl_chain e fd (r # rs) =
     (if ioctl_ret e r < 0 then (True, [Ioctl fd r])
      else (let (failed, t) = ioctl_chain e fd rs in (failed, Ioctl fd r # t)))"

definition usetup :: uinput_setup where
  "usetup = \<lparr>id_bustype = BUS_USB, id_vendor = 0x1234, id_product = 0x5678,
             setup_name = ''openwhispr-paste''\<rparr>"

definition capability_requests :: "ioctl_request list" where
  "capability_requests =
     [UI_SET_EVBIT EV_KEY, UI_SET_KEYBIT KEY_LEFTCTRL, UI_SET_KEYBIT KEY_LEFTSHIFT,
      UI_SET_KEYBIT KEY_V]"

definition creation_requests :: "ioctl_request list" where
  "creation_requests = [UI_DEV_SETUP usetup, UI_DEV_CREATE]"

text \<open>Lines 125 to 155 of \<open>paste_via_uinput\<close>: the events written once the device exists.\<close>

definition uinput_sequence :: "int \<Rightarrow> bool \<Rightarrow> call list" where
  "uinput_sequence fd use_shift =
     [Usleep 50000]
     @ emit fd EV_KEY KEY_LEFTCTRL 1 @ emit fd EV_SYN SYN_REPORT 0
     @ (if use_shift then emit fd EV_KEY KEY_LEFTSHIFT 1 @ emit fd EV_SYN SYN_REPORT 0 else [])
     @ [Usleep 8000]
     @ emit fd EV_KEY KEY_V 1 @ emit fd EV_SYN SYN_REPORT 0
     @ [Usleep 8000]
     @ emit fd EV_KEY KEY_V 0 @ emit fd EV_SYN SYN_REPORT 0
     @ [Usleep 8000]
     @ (if use_shift then emit fd EV_KEY KEY_LEFTSHIFT 0 @ emit fd EV_SYN SYN_REPORT 0 else [])
     @ emit fd EV_KEY KEY_LEFTCTRL 0 @ emit fd EV_SYN SYN_REPORT 0
     @ [Usleep 20000]"

definition paste_via_uinput :: "environment \<Rightarrow> bool \<Rightarrow> int \<times> call list" where
  "paste_via_uinput e use_shift =
     (let fd = open_ret e;
          t0 = [Open ''/dev/uinput'']
      in if fd < 0 then
           (3, t0 @ [Fprintf_stderr (''Cannot open /dev/uinput: '' @ strerror_errno e @ ''\<newline>'')])
         else
           (let (failed1, t1) = ioctl_chain e fd capability_requests
            in if failed1 then (4, t0 @ t1 @ [Close fd])
               else
                 (let (failed2, t2) = ioctl_chain e fd creation_requests
                  in if failed2 then (4, t0 @ t1 @ t2 @ [Close fd])
                     else (0, t0 @ t1 @ t2 @ uinput_sequence fd use_shift
                              @ [Ioctl fd UI_DEV_DESTROY, Close fd]))))"

subsection \<open>\<open>main\<close>\<close>

record arguments =
  force_terminal :: bool
  use_uinput :: bool
  target_window :: Window

text \<open>The argument loop, over \<open>argv[i..]\<close>; \<open>--window\<close> consumes the next argument if there is one.\<close>

fun parse_arguments :: "string list \<Rightarrow> arguments \<Rightarrow> arguments" where
  "parse_arguments [] a = a"
| "parse_arguments [x] a =
     (if x = ''--terminal'' then a\<lparr>force_terminal := True\<rparr>
      else if x = ''--uinput'' then a\<lparr>use_uinput := True\<rparr>
      else a)"
| "parse_arguments (x # y # ys) a =
     (if x = ''--terminal'' then parse_arguments (y # ys) (a\<lparr>force_terminal := True\<rparr>)
      else if x = ''--uinput'' then parse_arguments (y # ys) (a\<lparr>use_uinput := True\<rparr>)
      else if x = ''--window'' then parse_arguments ys (a\<lparr>target_window := strtoul y\<rparr>)
      else parse_arguments (y # ys) a)"

definition arguments_of :: "string list \<Rightarrow> arguments" where
  "arguments_of argv =
     parse_arguments (drop 1 argv)
       \<lparr>force_terminal = False, use_uinput = False, target_window = 0\<rparr>"

text \<open>Lines 196 to 200 of \<open>main\<close>: activation, then the window the class is read from.\<close>

definition resolve_window :: "environment \<Rightarrow> Window \<Rightarrow> Window \<times> call list" where
  "resolve_window e target =
     (if target \<noteq> 0 then (target, activate_window e target) else get_active_window e)"

text \<open>Lines 202 to 210 of \<open>main\<close>: the choice of \<open>use_shift\<close>.\<close>

definition choose_use_shift :: "environment \<Rightarrow> bool \<Rightarrow> Window \<Rightarrow> bool \<times> call list" where
  "choose_use_shift e forced win =
     (if \<not> forced \<and> win \<noteq> 0 then
        (case get_class_hint e win of
           None \<Rightarrow> (forced, [XGetClassHint win])
         | Some (res_name, res_class) \<Rightarrow>
             (is_terminal res_class \<or> is_terminal res_name, [XGetClassHint win, XFree, XFree]))
      else (forced, []))"

text \<open>Lines 212 to 232 of \<open>main\<close>: the key events of the display-server backend.\<close>

definition xtest_sequence :: "environment \<Rightarrow> bool \<Rightarrow> call list" where
  "xtest_sequence e use_shift =
     (let ctrl = keysym_to_keycode e XK_Control_L;
          shift = keysym_to_keycode e XK_Shift_L;
          v = keysym_to_keycode e XK_v
      in [XKeysymToKeycode XK_Control_L, XKeysymToKeycode XK_Shift_L, XKeysymToKeycode XK_v]
         @ [XTestFakeKeyEvent ctrl True]
         @ (if use_shift then [XTestFakeKeyEvent shift True] else [])
         @ [Usleep 8000, XTestFakeKeyEvent v True, Usleep 8000, XTestFakeKeyEvent v False,
            Usleep 8000]
         @ (if use_shift then [XTestFakeKeyEvent shift False] else [])
         @ [XTestFakeKeyEvent ctrl False, XFlush, Usleep 20000, XCloseDisplay])"

definition linux_main :: "environment \<Rightarrow> string list \<Rightarrow> int \<times> call list" where
  "linux_main e argv =
     (let a = arguments_of argv
      in if use_uinput a then
           (if HAVE_UINPUT e then paste_via_uinput e (force_terminal a)
            else (3, [Fprintf_stderr ''uinput support not compiled in\<newline>'']))
         else if \<not> open_display e then (1, [XOpenDisplay])
         else if \<not> xtest_query_extension e then
           (2, [XOpenDisplay, XTestQueryExtension, XCloseDisplay])
         else
           (let (win, t1) = resolve_window e (target_window a);
                (use_shift, t2) = choose_use_shift e (force_terminal a) win
            in (0, [XOpenDisplay, XTestQueryExtension] @ t1 @ t2 @ xtest_sequence e use_shift)))"

section \<open>windows-fast-paste.c\<close>

definition TERMINAL_CLASSES :: "string list" where
  "TERMINAL_CLASSES =
     [''ConsoleWindowClass'', ''CASCADIA_HOSTING_WINDOW_CLASS'', ''mintty'',
      ''VirtualConsoleClass'', ''PuTTY'', ''Alacritty'', ''org.wezfurlong.wezterm'',
      ''Hyper'', ''TMobaXterm'', ''kitty'']"

fun IsTerminalClass_loop :: "string list \<Rightarrow> string \<Rightarrow> bool" where
  "IsTerminalClass_loop [] className = False"
| "IsTerminalClass_loop (t # ts) className =
     (if stricmp className t = 0 then True else IsTerminalClass_loop ts className)"

definition IsTerminalClass :: "string \<Rightarrow> bool" where
  "IsTerminalClass className = IsTerminalClass_loop TERMINAL_CLASSES className"

text \<open>Constants of \<open>winuser.h\<close>; \<open>'V'\<close> is the character code 86.\<close>

definition INPUT_KEYBOARD :: nat where "INPUT_KEYBOARD = 1"
definition VK_CONTROL :: nat where "VK_CONTROL = 0x11"
definition VK_SHIFT :: nat where "VK_SHIFT = 0x10"
definition VK_V :: nat where "VK_V = of_char (CHR ''V'')"
definition KEYEVENTF_KEYUP :: nat where "KEYEVENTF_KEYUP = 2"

type_synonym HWND = nat

text \<open>The fields of \<open>INPUT\<close> the program sets; \<open>ZeroMemory\<close> leaves the others 0.\<close>

record INPUT =
  input_type :: nat
  ki_wVk :: nat
  ki_dwFlags :: nat

datatype win_call =
    GetForegroundWindow
  | GetClassNameA HWND nat
  | GetLastError
  | SendInput "INPUT list"
  | Sleep nat
  | Printf string
  | Fflush_stdout
  | Fprintf_stderr_win string

text \<open>
  The environment of one run of the Windows binary: the foreground window (0 is the null
  handle), what \<open>GetClassNameA\<close> leaves in the buffer for a window (\<open>classLen\<close> is its
  length, 0 on failure), how many of the submitted events \<open>SendInput\<close> accepts, and the
  value of \<open>GetLastError()\<close>.
\<close>

record win_environment =
  foreground_window :: HWND
  class_name_of :: "HWND \<Rightarrow> string"
  send_input_ret :: "INPUT list \<Rightarrow> nat"
  last_error :: nat

text \<open>\<open>%lu\<close>: an unsigned number in decimal.\<close>

fun decimal :: "nat \<Rightarrow> string" where
  "decimal n =
     (if n < 10 then [char_of (48 + n)]
      else decimal (n div 10) @ [char_of (48 + n mod 10)])"

definition key_down :: "nat \<Rightarrow> INPUT" where
  "key_down vk = \<lparr>input_type = INPUT_KEYBOARD, ki_wVk = vk, ki_dwFlags = 0\<rparr>"

definition key_up :: "nat \<Rightarrow> INPUT" where
  "key_up vk = \<lparr>input_type = INPUT_KEYBOARD, ki_wVk = vk, ki_dwFlags = KEYEVENTF_KEYUP\<rparr>"

definition SendPasteNormal_inputs :: "INPUT list" where
  "SendPasteNormal_inputs = [key_down VK_CONTROL, key_down VK_V, key_up VK_V, key_up VK_CONTROL]"

definition SendPasteNormal :: "win_environment \<Rightarrow> int \<times> win_call list" where
  "SendPasteNormal e =
     (let sent = send_input_ret e SendPasteNormal_inputs
      in (if sent = 4 then 0 else 1, [SendInput SendPasteNormal_inputs]))"

definition SendPasteTerminal_inputs :: "INPUT list" where
  "SendPasteTerminal_inputs =
     [key_down VK_CONTROL, key_down VK_SHIFT, key_down VK_V,
      key_up VK_V, key_up VK_SHIFT, key_up VK_CONTROL]"

definition SendPasteTerminal :: "win_environment \<Rightarrow> int \<times> win_call list" where
  "SendPasteTerminal e =
     (let sent = send_input_ret e SendPasteTerminal_inputs
      in (if sent = 6 then 0 else 1, [SendInput SendPasteTerminal_inputs]))"

fun detect_only_loop :: "string list \<Rightarrow> bool \<Rightarrow> bool" where
  "detect_only_loop [] detectOnly = detectOnly"
| "detect_only_loop (x # xs) detectOnly =
     (if x = ''--detect-only'' then detect_only_loop xs True else detect_only_loop xs detectOnly)"

definition windows_main :: "win_environment \<Rightarrow> string list \<Rightarrow> int \<times> win_call list" where
  "windows_main e argv =
     (let detectOnly = detect_only_loop (drop 1 argv) False;
          hwnd = foreground_window e
      in if hwnd = 0 then
           (2, [GetForegroundWindow,
                Fprintf_stderr_win ''ERROR: No foreground window found\<newline>''])
         else
           (let className = class_name_of e hwnd;
                classLen = length className;
                t0 = [GetForegroundWindow, GetClassNameA hwnd 256]
            in if classLen = 0 then
                 (1, t0 @ [GetLastError,
                      Fprintf_stderr_win
                        (''ERROR: Could not get window class name (error ''
                         @ decimal (last_error e) @ '')\<newline>'')])
               else
                 (let isTerminal = IsTerminalClass className
                  in if detectOnly then
                       (0, t0 @ [Printf (''WINDOW_CLASS '' @ className @ ''\<newline>''),
                                 Printf (''IS_TERMINAL ''
                                   @ (if isTerminal then ''true'' else ''false'') @ ''\<newline>''),
                                 Fflush_stdout])
                     else
                       (let (result, t1) =
                              (if isTerminal then SendPasteTerminal e else SendPasteNormal e)
                        in if result \<noteq> 0 then
                             (1, t0 @ [Sleep 5] @ t1 @ [GetLastError,
                                  Fprintf_stderr_win
                                    (''ERROR: SendInput failed (error ''
                                     @ decimal (last_error e) @ '')\<newline>'')])
                           else
                             (0, t0 @ [Sleep 5] @ t1 @ [Sleep 20,
                                  Printf (''PASTE_OK '' @ className @ '' ''
                                    @ (if isTerminal then ''ctrl+shift+v'' else ''ctrl+v'')
                                    @ ''\<newline>''),
                                  Fflush_stdout])))))"

section \<open>Key sequences and the properties asked of them\<close>

text \<open>
  A key event is a key together with \<open>True\<close> for a press and \<open>False\<close> for a release.
  The three backends name keys by X keycode, by Linux key code and by virtual-key code.
\<close>

fun xtest_events :: "call list \<Rightarrow> (nat \<times> bool) list" where
  "xtest_events [] = []"
| "xtest_events (XTestFakeKeyEvent k press # cs) = (k, press) # xtest_events cs"
| "xtest_events (c # cs) = xtest_events cs"

text \<open>Of the events written to the virtual device, those of type \<open>EV_KEY\<close>: value 0 is a release.\<close>

fun uinput_events :: "call list \<Rightarrow> (nat \<times> bool) list" where
  "uinput_events [] = []"
| "uinput_events (Write fd ie # cs) =
     (if ie_type ie = EV_KEY then (ie_code ie, ie_value ie \<noteq> 0) # uinput_events cs
      else uinput_events cs)"
| "uinput_events (c # cs) = uinput_events cs"

definition input_events :: "INPUT list \<Rightarrow> (nat \<times> bool) list" where
  "input_events inputs = map (\<lambda>i. (ki_wVk i, ki_dwFlags i div KEYEVENTF_KEYUP mod 2 = 0)) inputs"

fun is_key_call :: "call \<Rightarrow> bool" where
  "is_key_call (XTestFakeKeyEvent k press) = True"
| "is_key_call (Write fd ie) = True"
| "is_key_call c = False"

text \<open>The calls by which the program finds out which window is active.\<close>

fun is_window_query :: "call \<Rightarrow> bool" where
  "is_window_query (XGetWindowProperty w prop) = True"
| "is_window_query XGetInputFocus = True"
| "is_window_query c = False"

fun is_class_query :: "call \<Rightarrow> bool" where
  "is_class_query (XGetClassHint w) = True"
| "is_class_query c = False"

text \<open>The two steps of \<open>activate_window\<close>: the client message and the forced focus.\<close>

fun is_activation_call :: "call \<Rightarrow> bool" where
  "is_activation_call (XSendEvent w masks ev) = True"
| "is_activation_call (XSetInputFocus w) = True"
| "is_activation_call c = False"

fun is_SendInput :: "win_call \<Rightarrow> bool" where
  "is_SendInput (SendInput inputs) = True"
| "is_SendInput c = False"

text \<open>Every press is followed, strictly later, by a release of the same key.\<close>

definition release_follows_press :: "('k \<times> bool) list \<Rightarrow> bool" where
  "release_follows_press evs \<longleftrightarrow>
     (\<forall>i<length evs. snd (evs ! i) \<longrightarrow>
        (\<exists>j<length evs. i < j \<and> evs ! j = (fst (evs ! i), False)))"

text \<open>Each key is pressed as many times as it is released.\<close>

definition balanced :: "('k \<times> bool) list \<Rightarrow> bool" where
  "balanced evs \<longleftrightarrow> (\<forall>k. count_list evs (k, True) = count_list evs (k, False))"

text \<open>Every occurrence of \<open>a\<close> is strictly before every occurrence of \<open>b\<close>.\<close>

definition all_before :: "'a \<Rightarrow> 'a \<Rightarrow> 'a list \<Rightarrow> bool" where
  "all_before a b xs \<longleftrightarrow>
     (\<forall>i<length xs. \<forall>j<length xs. xs ! i = a \<and> xs ! j = b \<longrightarrow> i < j)"

text \<open>
  The invariant of a paste sequence over the keys \<open>ctrl\<close>, \<open>shift\<close> and \<open>v\<close>: Ctrl and V
  are pressed; presses and releases pair up; V goes down after Ctrl and after Shift (if
  Shift is pressed at all) and comes up before either of them.
\<close>

definition well_nested :: "'k \<Rightarrow> 'k \<Rightarrow> 'k \<Rightarrow> ('k \<times> bool) list \<Rightarrow> bool" where
  "well_nested ctrl shift v evs \<longleftrightarrow>
     (ctrl, True) \<in> set evs \<and> (v, True) \<in> set evs
     \<and> release_follows_press evs \<and> balanced evs
     \<and> all_before (ctrl, True) (v, True) evs \<and> all_before (shift, True) (v, True) evs
     \<and> all_before (v, False) (shift, False) evs \<and> all_before (v, False) (ctrl, False) evs"

text \<open>
  \<open>precedes P Q t\<close>: reading \<open>t\<close> from the start, no call satisfying \<open>Q\<close> comes before the
  first call satisfying \<open>P\<close>; so every \<open>Q\<close> call has a \<open>P\<close> call at or before its position
  (before it, when no call satisfies both).
\<close>

fun precedes :: "('a \<Rightarrow> bool) \<Rightarrow> ('a \<Rightarrow> bool) \<Rightarrow> 'a list \<Rightarrow> bool" where
  "precedes P Q [] = True"
| "precedes P Q (x # xs) = (if P x then True else \<not> Q x \<and> precedes P Q xs)"

section \<open>Example environments\<close>

text \<open>
  An X session with a terminal window focused and a usable \<open>/dev/uinput\<close>; the same
  machine where creating the virtual device is refused by the \<open>UI_DEV_CREATE\<close> ioctl, and
  where \<open>/dev/uinput\<close> cannot be opened for lack of permission; the same session with no active
  window and no input focus; the same session where no class hint can be read; a Windows
  session with a console in the foreground.
\<close>

definition desktop :: environment where
  "desktop =
     \<lparr>HAVE_UINPUT = True, open_ret = 3, strerror_errno = ''Success'',
      ioctl_ret = (\<lambda>r. 0), open_display = True, xtest_query_extension = True,
      default_root_window = 0x1e7, intern_atom = (\<lambda>name only_if_exists. 0x15f),
      get_window_property = Some [0x2400007], get_input_focus = 0x2400007,
      get_class_hint = (\<lambda>w. Some (Some ''gnome-terminal-server'', Some ''Gnome-terminal'')),
      keysym_to_keycode = (\<lambda>k. case k of XK_Control_L \<Rightarrow> 37 | XK_Shift_L \<Rightarrow> 50 | XK_v \<Rightarrow> 55)\<rparr>"

definition creation_denied :: environment where
  "creation_denied = desktop\<lparr>ioctl_ret := (\<lambda>r. if r = UI_DEV_CREATE then - 1 else 0)\<rparr>"

definition permission_denied :: environment where
  "permission_denied = desktop\<lparr>open_ret := - 1, strerror_errno := ''Permission denied''\<rparr>"

definition console_session :: win_environment where
  "console_session =
     \<lparr>foreground_window = 0x50a2c, class_name_of = (\<lambda>h. ''ConsoleWindowClass''),
      send_input_ret = length, last_error = 0\<rparr>"

definition nothing_focused :: environment where
  "nothing_focused = desktop\<lparr>get_window_property := None, get_input_focus := 0\<rparr>"

definition unreadable_class :: environment where
  "unreadable_class = desktop\<lparr>get_class_hint := (\<lambda>w. None)\<rparr>"

section \<open>Properties of the string functions\<close>

lemma starts_with_ci_iff:
  "starts_with_ci n h \<longleftrightarrow> prefix (map tolower n) (map tolower h)"
  by (induction n h rule: starts_with_ci.induct) simp_all

lemma strcasestr_iff:
  "strcasestr h n \<noteq> None \<longleftrightarrow> sublist (map tolower n) (map tolower h)"
proof (induction h)
  case Nil
  show ?case by simp
next
  case (Cons a h)
  show ?case
  proof (cases "starts_with_ci n (a # h)")
    case True
    then have "prefix (map tolower n) (map tolower (a # h))"
      by (simp add: starts_with_ci_iff)
    then show ?thesis using True by (simp add: sublist_Cons_right)
  next
    case False
    then have "\<not> prefix (map tolower n) (map tolower (a # h))"
      by (simp add: starts_with_ci_iff)
    then show ?thesis using False Cons.IH by (simp add: sublist_Cons_right)
  qed
qed

lemma is_terminal_loop_iff:
  "is_terminal_loop ts w \<longleftrightarrow> (\<exists>t \<in> set ts. sublist (map tolower t) (map tolower w))"
proof (induction ts)
  case Nil
  show ?case by simp
next
  case (Cons t ts)
  show ?case using Cons.IH strcasestr_iff [of w t] by auto
qed

lemma terminal_classes_nonempty: "[] \<notin> set terminal_classes"
  by (simp add: terminal_classes_def)

section \<open>Properties of the models\<close>

lemma xtest_events_append: "xtest_events (a @ b) = xtest_events a @ xtest_events b"
  by (induction a rule: xtest_events.induct) simp_all

lemma uinput_events_append: "uinput_events (a @ b) = uinput_events a @ uinput_events b"
  by (induction a rule: uinput_events.induct) simp_all

lemma ioctl_chain_calls:
  "c \<in> set (snd (ioctl_chain e fd rs)) \<Longrightarrow> \<exists>r. c = Ioctl fd r"
  by (induction rs) (auto split: if_splits prod.splits)

lemma ioctl_chain_failed:
  "fst (ioctl_chain e fd rs) \<longleftrightarrow> (\<exists>r \<in> set rs. ioctl_ret e r < 0)"
  by (induction rs) (auto split: if_splits prod.splits)

lemma uinput_events_ioctl_chain: "uinput_events (snd (ioctl_chain e fd rs)) = []"
  by (induction rs) (auto split: if_splits prod.splits)

lemma key_calls_ioctl_chain: "filter is_key_call (snd (ioctl_chain e fd rs)) = []"
  by (induction rs) (auto split: if_splits prod.splits)

lemma well_nested_terminal:
  assumes "v \<noteq> c" "v \<noteq> s"
  shows "well_nested c s v [(c, True), (s, True), (v, True), (v, False), (s, False), (c, False)]"
  using assms
  unfolding well_nested_def release_follows_press_def balanced_def all_before_def
  by (auto simp add: All_less_Suc Ex_less_Suc nth_Cons')

lemma well_nested_normal:
  assumes "v \<noteq> c" "v \<noteq> s"
  shows "well_nested c s v [(c, True), (v, True), (v, False), (c, False)]"
  using assms
  unfolding well_nested_def release_follows_press_def balanced_def all_before_def
  by (auto simp add: All_less_Suc Ex_less_Suc nth_Cons')

lemma xtest_events_xtest_sequence:
  "xtest_events (xtest_sequence e use_shift) =
     (let c = keysym_to_keycode e XK_Control_L; s = keysym_to_keycode e XK_Shift_L;
          v = keysym_to_keycode e XK_v
      in if use_shift then [(c, True), (s, True), (v, True), (v, False), (s, False), (c, False)]
         else [(c, True), (v, True), (v, False), (c, False)])"
  by (simp add: xtest_sequence_def Let_def)

lemma uinput_events_uinput_sequence:
  "uinput_events (uinput_sequence fd use_shift) =
     (if use_shift then [(KEY_LEFTCTRL, True), (KEY_LEFTSHIFT, True), (KEY_V, True),
                         (KEY_V, False), (KEY_LEFTSHIFT, False), (KEY_LEFTCTRL, False)]
      else [(KEY_LEFTCTRL, True), (KEY_V, True), (KEY_V, False), (KEY_LEFTCTRL, False)])"
  by (simp add: uinput_sequence_def emit_def EV_KEY_def EV_SYN_def)

lemma paste_via_uinput_unfold:
  "paste_via_uinput e use_shift =
     (if open_ret e < 0 then
        (3, [Open ''/dev/uinput'',
             Fprintf_stderr (''Cannot open /dev/uinput: '' @ strerror_errno e @ ''\<newline>'')])
      else if fst (ioctl_chain e (open_ret e) capability_requests) then
        (4, Open ''/dev/uinput'' # snd (ioctl_chain e (open_ret e) capability_requests)
              @ [Close (open_ret e)])
      else if fst (ioctl_chain e (open_ret e) creation_requests) then
        (4, Open ''/dev/uinput'' # snd (ioctl_chain e (open_ret e) capability_requests)
              @ snd (ioctl_chain e (open_ret e) creation_requests) @ [Close (open_ret e)])
      else
        (0, Open ''/dev/uinput'' # snd (ioctl_chain e (open_ret e) capability_requests)
              @ snd (ioctl_chain e (open_ret e) creation_requests)
              @ uinput_sequence (open_ret e) use_shift
              @ [Ioctl (open_ret e) UI_DEV_DESTROY, Close (open_ret e)]))"
  by (simp add: paste_via_uinput_def Let_def split: prod.splits)

lemma uinput_events_paste_via_uinput:
  "fst (paste_via_uinput e use_shift) = 0 \<Longrightarrow>
   uinput_events (snd (paste_via_uinput e use_shift)) = uinput_events (uinput_sequence (open_ret e) use_shift)"
  by (simp add: paste_via_uinput_unfold uinput_events_append uinput_events_ioctl_chain split: if_splits)

lemma linux_main_unfold:
  "linux_main e argv =
     (if use_uinput (arguments_of argv) then
        (if HAVE_UINPUT e then paste_via_uinput e (force_terminal (arguments_of argv))
         else (3, [Fprintf_stderr ''uinput support not compiled in\<newline>'']))
      else if \<not> open_display e then (1, [XOpenDisplay])
      else if \<not> xtest_query_extension e then
        (2, [XOpenDisplay, XTestQueryExtension, XCloseDisplay])
      else
        (0, [XOpenDisplay, XTestQueryExtension]
            @ snd (resolve_window e (target_window (arguments_of argv)))
            @ snd (choose_use_shift e (force_terminal (arguments_of argv))
                     (fst (resolve_window e (target_window (arguments_of argv)))))
            @ xtest_sequence e
                (fst (choose_use_shift e (force_terminal (arguments_of argv))
                        (fst (resolve_window e (target_window (arguments_of argv))))))))"
  by (simp add: linux_main_def Let_def split: prod.splits)

lemma input_events_normal:
  "input_events SendPasteNormal_inputs =
     [(VK_CONTROL, True), (VK_V, True), (VK_V, False), (VK_CONTROL, False)]"
  by (simp add: input_events_def SendPasteNormal_inputs_def key_down_def key_up_def KEYEVENTF_KEYUP_def)

lemma input_events_terminal:
  "input_events SendPasteTerminal_inputs =
     [(VK_CONTROL, True), (VK_SHIFT, True), (VK_V, True),
      (VK_V, False), (VK_SHIFT, False), (VK_CONTROL, False)]"
  by (simp add: input_events_def SendPasteTerminal_inputs_def key_down_def key_up_def KEYEVENTF_KEYUP_def)

lemma key_calls_paste_via_uinput_failed:
  "fst (paste_via_uinput e use_shift) \<noteq> 0 \<Longrightarrow>
   filter is_key_call (snd (paste_via_uinput e use_shift)) = []"
  by (simp add: paste_via_uinput_unfold key_calls_ioctl_chain split: if_splits)

lemma creation_requests_failed:
  "ioctl_ret e UI_DEV_CREATE < 0 \<Longrightarrow> fst (ioctl_chain e fd creation_requests)"
  by (simp add: ioctl_chain_failed creation_requests_def)

lemma count_Close_ioctl_chain: "count_list (snd (ioctl_chain e fd rs)) (Close fd') = 0"
  by (induction rs) (auto split: if_splits prod.splits)

lemma count_Close_uinput_sequence: "count_list (uinput_sequence fd use_shift) (Close fd') = 0"
  by (simp add: uinput_sequence_def emit_def)

lemma stricmp_zero_iff: "stricmp a b = 0 \<longleftrightarrow> map tolower a = map tolower b"
  by (induction a b rule: stricmp.induct) simp_all

lemma IsTerminalClass_loop_iff:
  "IsTerminalClass_loop ts c \<longleftrightarrow> (\<exists>t \<in> set ts. map tolower c = map tolower t)"
  by (induction ts) (simp_all add: stricmp_zero_iff)

lemma detect_only_loop_iff:
  "detect_only_loop xs b \<longleftrightarrow> b \<or> ''--detect-only'' \<in> set xs"
  by (induction xs arbitrary: b) auto

lemma ex_le_Suc_cases:
  "(\<exists>j\<le>Suc i. R j) \<longleftrightarrow> R 0 \<or> (\<exists>j\<le>i. R (Suc j))"
proof
  assume "\<exists>j\<le>Suc i. R j"
  then obtain j where "j \<le> Suc i" and "R j" by blast
  then show "R 0 \<or> (\<exists>j\<le>i. R (Suc j))" by (cases j) auto
next
  assume "R 0 \<or> (\<exists>j\<le>i. R (Suc j))"
  then show "\<exists>j\<le>Suc i. R j" by auto
qed

lemma precedes_iff:
  "precedes P Q xs \<longleftrightarrow> (\<forall>i<length xs. Q (xs ! i) \<longrightarrow> (\<exists>j\<le>i. P (xs ! j)))"
proof (induction xs)
  case Nil
  show ?case by simp
next
  case (Cons x xs)
  show ?case
  proof (cases "P x")
    case True
    then have "\<exists>j\<le>i. P ((x # xs) ! j)" for i
      by (intro exI [of _ 0]) simp
    with True show ?thesis by simp
  next
    case False
    have "(\<forall>i<length (x # xs). Q ((x # xs) ! i) \<longrightarrow> (\<exists>j\<le>i. P ((x # xs) ! j)))
          \<longleftrightarrow> \<not> Q x \<and> (\<forall>i<length xs. Q (xs ! i) \<longrightarrow> (\<exists>j\<le>i. P (xs ! j)))"
      using False
      by (simp add: All_less_Suc2 ex_le_Suc_cases) 
    with False Cons.IH show ?thesis by simp
  qed
qed

lemma precedes_none: "filter Q xs = [] \<Longrightarrow> precedes P Q xs"
  by (induction xs) (auto split: if_splits)

lemma precedes_append_skip:
  "filter P xs = [] \<Longrightarrow> filter Q xs = [] \<Longrightarrow> precedes P Q (xs @ ys) = precedes P Q ys"
  by (induction xs) (auto split: if_splits)

lemma precedes_append_found:
  "precedes P Q xs \<Longrightarrow> filter P xs \<noteq> [] \<Longrightarrow> precedes P Q (xs @ ys)"
  by (induction xs) (auto split: if_splits)

lemma get_active_window_queries:
  "precedes is_window_query is_key_call (snd (get_active_window e))
   \<and> filter is_window_query (snd (get_active_window e)) \<noteq> []
   \<and> filter is_key_call (snd (get_active_window e)) = []
   \<and> xtest_events (snd (get_active_window e)) = []"
  by (simp add: get_active_window_def focus_fallback_def Let_def split: option.splits)

lemma activate_window_calls:
  "precedes (\<lambda>c. c = XSetInputFocus w) is_key_call (activate_window e w)
   \<and> filter (\<lambda>c. c = XSetInputFocus w) (activate_window e w) \<noteq> []
   \<and> filter is_key_call (activate_window e w) = []
   \<and> xtest_events (activate_window e w) = []"
  by (simp add: activate_window_def Let_def)

lemma resolve_window_no_keys:
  "filter is_key_call (snd (resolve_window e w)) = [] \<and> xtest_events (snd (resolve_window e w)) = []"
  by (simp add: resolve_window_def get_active_window_queries activate_window_calls)

lemma choose_use_shift_no_keys:
  "filter is_key_call (snd (choose_use_shift e f w)) = []
   \<and> xtest_events (snd (choose_use_shift e f w)) = []"
  by (simp add: choose_use_shift_def split: option.splits)

lemma fst_choose_use_shift:
  "fst (choose_use_shift e f w) =
     (f \<or> (w \<noteq> 0 \<and> (case get_class_hint e w of
                        None \<Rightarrow> False
                      | Some (res_name, res_class) \<Rightarrow> is_terminal res_class \<or> is_terminal res_name)))"
  by (simp add: choose_use_shift_def split: option.splits)

lemma choose_use_shift_queries:
  "\<not> f \<Longrightarrow> w \<noteq> 0 \<Longrightarrow>
   precedes is_class_query is_key_call (snd (choose_use_shift e f w))
   \<and> filter is_class_query (snd (choose_use_shift e f w)) \<noteq> []"
  by (simp add: choose_use_shift_def split: option.splits)

lemma xtest_sequence_has_keys: "filter is_key_call (xtest_sequence e use_shift) \<noteq> []"
  by (simp add: xtest_sequence_def Let_def)

lemma filter_ioctl_chain:
  "(\<And>r. \<not> P (Ioctl fd r)) \<Longrightarrow> filter P (snd (ioctl_chain e fd rs)) = []"
  by (induction rs) (auto split: if_splits prod.splits)

lemma paste_via_uinput_no_x_calls:
  "filter is_window_query (snd (paste_via_uinput e use_shift)) = []
   \<and> filter is_class_query (snd (paste_via_uinput e use_shift)) = []
   \<and> filter is_activation_call (snd (paste_via_uinput e use_shift)) = []"
  by (simp add: paste_via_uinput_unfold filter_ioctl_chain uinput_sequence_def emit_def)

lemma paste_via_uinput_has_keys:
  "fst (paste_via_uinput e use_shift) = 0 \<Longrightarrow>
   filter is_key_call (snd (paste_via_uinput e use_shift)) \<noteq> []"
  by (simp add: paste_via_uinput_unfold uinput_sequence_def emit_def split: if_splits)

lemma desktop_uinput_ok: "fst (paste_via_uinput desktop use_shift) = 0"
  by (simp add: paste_via_uinput_unfold ioctl_chain_failed desktop_def)

lemma strtoul_hex_example: "strtoul ''0x2400007'' = 37748743"
  by code_simp

lemma strtoul_decimal_example: "strtoul ''37748743'' = 37748743"
  by code_simp

lemma strtoul_octal_example: "strtoul ''0220000007'' = 37748743"
  by code_simp

lemma strtoul_zero_example: "strtoul ''0'' = 0"
  by code_simp

lemma no_activation_outside_activate_window:
  "filter is_activation_call (snd (get_active_window e)) = []
   \<and> filter is_activation_call (snd (choose_use_shift e f w)) = []
   \<and> filter is_activation_call (xtest_sequence e use_shift) = []"
proof -
  have "filter is_activation_call (snd (get_active_window e)) = []"
    by (simp add: get_active_window_def focus_fallback_def Let_def split: option.splits)
  moreover have "filter is_activation_call (snd (choose_use_shift e f w)) = []"
    by (simp add: choose_use_shift_def split: option.splits)
  moreover have "filter is_activation_call (xtest_sequence e use_shift) = []"
    by (simp add: xtest_sequence_def Let_def)
  ultimately show ?thesis by blast
qed

lemma no_activation_without_target:
  assumes "target_window (arguments_of argv) = 0"
  shows "filter is_activation_call (snd (linux_main e argv)) = []"
proof (cases "use_uinput (arguments_of argv)")
  case True
  then show ?thesis
    by (simp add: linux_main_unfold paste_via_uinput_no_x_calls)
next
  case False
  have "resolve_window e (target_window (arguments_of argv)) = get_active_window e"
    using assms by (simp add: resolve_window_def)
  with False show ?thesis
    by (simp add: linux_main_unfold no_activation_outside_activate_window)
qed

lemma display_run_has_keys:
  "\<not> use_uinput (arguments_of argv) \<Longrightarrow> open_display e \<Longrightarrow> xtest_query_extension e \<Longrightarrow>
   filter is_key_call (snd (linux_main e argv)) \<noteq> []"
  by (simp add: linux_main_unfold xtest_sequence_has_keys)

lemma windows_main_order:
  "precedes (\<lambda>c. c = GetForegroundWindow) is_SendInput (snd (windows_main e argv))
   \<and> precedes (\<lambda>c. c = GetClassNameA (foreground_window e) 256) is_SendInput
        (snd (windows_main e argv))"
  by (simp add: windows_main_def Let_def split: prod.splits)

lemma windows_main_inputs:
  "SendInput inputs \<in> set (snd (windows_main e argv)) \<Longrightarrow>
   inputs = (if IsTerminalClass (class_name_of e (foreground_window e))
             then SendPasteTerminal_inputs else SendPasteNormal_inputs)"
  by (auto simp add: windows_main_def Let_def SendPasteTerminal_def SendPasteNormal_def
      split: if_splits prod.splits)

lemma xtest_events_linux_main:
  "\<not> use_uinput (arguments_of argv) \<Longrightarrow> open_display e \<Longrightarrow> xtest_query_extension e \<Longrightarrow>
   xtest_events (snd (linux_main e argv)) =
     xtest_events (xtest_sequence e
       (fst (choose_use_shift e (force_terminal (arguments_of argv))
              (fst (resolve_window e (target_window (arguments_of argv)))))))"
  by (simp add: linux_main_unfold xtest_events_append resolve_window_no_keys
        choose_use_shift_no_keys)

lemma well_nested_xtest_sequence:
  "keysym_to_keycode e XK_v \<noteq> keysym_to_keycode e XK_Control_L \<Longrightarrow>
   keysym_to_keycode e XK_v \<noteq> keysym_to_keycode e XK_Shift_L \<Longrightarrow>
   well_nested (keysym_to_keycode e XK_Control_L) (keysym_to_keycode e XK_Shift_L)
     (keysym_to_keycode e XK_v) (xtest_events (xtest_sequence e use_shift))"
  by (simp add: xtest_events_xtest_sequence Let_def well_nested_terminal well_nested_normal)

lemma well_nested_input_events:
  "well_nested VK_CONTROL VK_SHIFT VK_V (input_events SendPasteNormal_inputs)
   \<and> well_nested VK_CONTROL VK_SHIFT VK_V (input_events SendPasteTerminal_inputs)"
proof -
  have "VK_V \<noteq> VK_CONTROL" and "VK_V \<noteq> VK_SHIFT"
    by (simp_all add: VK_V_def VK_CONTROL_def VK_SHIFT_def)
  then show ?thesis
    by (simp add: input_events_normal input_events_terminal well_nested_normal
          well_nested_terminal)
qed

lemma console_session_sends_terminal_inputs:
  "SendInput SendPasteTerminal_inputs
     \<in> set (snd (windows_main console_session [''windows-fast-paste.exe'']))"
proof -
  have "IsTerminalClass ''ConsoleWindowClass''"
    by code_simp
  then show ?thesis
    by (simp add: windows_main_def Let_def console_session_def SendPasteTerminal_def
          SendPasteTerminal_inputs_def split: prod.splits)
qed

lemma linux_main_no_keys_early:
  "\<not> use_uinput (arguments_of argv) \<Longrightarrow> \<not> (open_display e \<and> xtest_query_extension e) \<Longrightarrow>
   filter is_key_call (snd (linux_main e argv)) = []"
  by (auto simp add: linux_main_unfold)

lemma activation_precedes_keys:
  assumes u: "\<not> use_uinput (arguments_of argv)"
    and nz: "target_window (arguments_of argv) \<noteq> 0"
  shows "precedes (\<lambda>c. c = XSetInputFocus (target_window (arguments_of argv))) is_key_call
           (snd (linux_main e argv))"
proof (cases "open_display e \<and> xtest_query_extension e")
  case True
  let ?w = "target_window (arguments_of argv)"
  let ?choice = "choose_use_shift e (force_terminal (arguments_of argv)) ?w"
  have "precedes (\<lambda>c. c = XSetInputFocus ?w) is_key_call
          (activate_window e ?w @ snd ?choice @ xtest_sequence e (fst ?choice))"
    using activate_window_calls [of ?w e] by (intro precedes_append_found) simp_all
  then show ?thesis
    using u nz True by (simp add: linux_main_unfold resolve_window_def)
next
  case False
  then show ?thesis
    using linux_main_no_keys_early [OF u] by (intro precedes_none) simp
qed

section \<open>Claims\<close>

text \<open>
  C1. \<open>is_terminal\<close> is true exactly for the strings that contain, ignoring letter case,
  some entry of \<open>terminal_classes\<close> as a substring; it is false for the null pointer and
  for the empty string; \<open>gnome-terminal-server\<close> is a terminal and \<open>firefox\<close> is not.
\<close>

theorem is_terminal_substring_match:
  "(is_terminal (Some w) \<longleftrightarrow>
      (\<exists>t \<in> set terminal_classes. \<exists>pre post. map tolower w = pre @ map tolower t @ post))
   \<and> is_terminal None = False
   \<and> is_terminal (Some []) = False
   \<and> is_terminal (Some ''gnome-terminal-server'') = True
   \<and> is_terminal (Some ''firefox'') = False"
proof -
  have general: "is_terminal (Some w) \<longleftrightarrow>
      (\<exists>t \<in> set terminal_classes. \<exists>pre post. map tolower w = pre @ map tolower t @ post)"
    for w
    by (simp add: is_terminal_def is_terminal_loop_iff sublist_def)
  have null: "is_terminal None = False"
    by (simp add: is_terminal_def)
  have empty: "is_terminal (Some []) = False"
    using terminal_classes_nonempty by (auto simp add: general)
  have gnome: "is_terminal (Some ''gnome-terminal-server'') = True"
    by code_simp
  have firefox: "is_terminal (Some ''firefox'') = False"
    by code_simp
  from general null empty gnome firefox show ?thesis by blast
qed

theorem is_terminal_substring_match_witness:
  "is_terminal (Some ''Org.GNOME.XTerm'') = True
   \<and> (\<exists>t \<in> set terminal_classes. \<exists>pre post.
         map tolower ''Org.GNOME.XTerm'' = pre @ map tolower t @ post)"
proof -
  have "is_terminal (Some ''Org.GNOME.XTerm'') = True" by code_simp
  with is_terminal_substring_match [of "''Org.GNOME.XTerm''"] show ?thesis by blast
qed

text \<open>
  C2. Every key sequence of the three backends, in the terminal and in the plain variant,
  is well nested: each press has a release of the same key strictly later, each key is
  pressed as often as released, V is pressed after Ctrl (and after Shift, which is pressed
  in the terminal variant) and released before Shift and Ctrl. This holds for the XTest
  events of \<open>main\<close>, in isolation and in every run that reaches them, where the keys are
  the keycodes the server reports and the keycode of V is taken to differ from the two
  modifiers'; for the key events \<open>paste_via_uinput\<close> writes when it returns 0; and for
  the two \<open>SendInput\<close> arrays and whatever \<open>main\<close> of the Windows binary submits.
\<close>

theorem paste_sequences_well_nested:
  "(keysym_to_keycode e XK_v \<noteq> keysym_to_keycode e XK_Control_L
      \<and> keysym_to_keycode e XK_v \<noteq> keysym_to_keycode e XK_Shift_L \<longrightarrow>
      well_nested (keysym_to_keycode e XK_Control_L) (keysym_to_keycode e XK_Shift_L)
        (keysym_to_keycode e XK_v) (xtest_events (xtest_sequence e use_shift))
      \<and> (use_shift \<longrightarrow>
           (keysym_to_keycode e XK_Shift_L, True) \<in> set (xtest_events (xtest_sequence e use_shift)))
      \<and> (\<not> use_uinput (arguments_of argv) \<and> open_display e \<and> xtest_query_extension e \<longrightarrow>
           well_nested (keysym_to_keycode e XK_Control_L) (keysym_to_keycode e XK_Shift_L)
             (keysym_to_keycode e XK_v) (xtest_events (snd (linux_main e argv)))))
   \<and> (fst (paste_via_uinput e use_shift) = 0 \<longrightarrow>
        well_nested KEY_LEFTCTRL KEY_LEFTSHIFT KEY_V
          (uinput_events (snd (paste_via_uinput e use_shift)))
        \<and> (use_shift \<longrightarrow>
             (KEY_LEFTSHIFT, True) \<in> set (uinput_events (snd (paste_via_uinput e use_shift)))))
   \<and> well_nested VK_CONTROL VK_SHIFT VK_V (input_events SendPasteNormal_inputs)
   \<and> well_nested VK_CONTROL VK_SHIFT VK_V (input_events SendPasteTerminal_inputs)
   \<and> (VK_SHIFT, True) \<in> set (input_events SendPasteTerminal_inputs)
   \<and> (\<forall>inputs. SendInput inputs \<in> set (snd (windows_main we wargv)) \<longrightarrow>
         well_nested VK_CONTROL VK_SHIFT VK_V (input_events inputs))"
proof -
  have x11_shift: "use_shift \<Longrightarrow>
      (keysym_to_keycode e XK_Shift_L, True) \<in> set (xtest_events (xtest_sequence e use_shift))"
    by (simp add: xtest_events_xtest_sequence Let_def)
  have x11_main: "well_nested (keysym_to_keycode e XK_Control_L) (keysym_to_keycode e XK_Shift_L)
             (keysym_to_keycode e XK_v) (xtest_events (snd (linux_main e argv)))"
    if "keysym_to_keycode e XK_v \<noteq> keysym_to_keycode e XK_Control_L"
      and "keysym_to_keycode e XK_v \<noteq> keysym_to_keycode e XK_Shift_L"
      and "\<not> use_uinput (arguments_of argv)" and "open_display e" and "xtest_query_extension e"
    using that by (simp add: xtest_events_linux_main well_nested_xtest_sequence)
  have codes: "KEY_V \<noteq> KEY_LEFTCTRL" "KEY_V \<noteq> KEY_LEFTSHIFT"
    by (simp_all add: KEY_V_def KEY_LEFTCTRL_def KEY_LEFTSHIFT_def)
  have uinput: "well_nested KEY_LEFTCTRL KEY_LEFTSHIFT KEY_V
          (uinput_events (snd (paste_via_uinput e use_shift)))"
    if "fst (paste_via_uinput e use_shift) = 0"
    using that codes
    by (simp add: uinput_events_paste_via_uinput uinput_events_uinput_sequence
          well_nested_terminal well_nested_normal)
  have uinput_shift: "(KEY_LEFTSHIFT, True) \<in> set (uinput_events (snd (paste_via_uinput e use_shift)))"
    if "fst (paste_via_uinput e use_shift) = 0" "use_shift"
    using that by (simp add: uinput_events_paste_via_uinput uinput_events_uinput_sequence)
  have win_shift: "(VK_SHIFT, True) \<in> set (input_events SendPasteTerminal_inputs)"
    by (simp add: input_events_terminal)
  have win_main: "well_nested VK_CONTROL VK_SHIFT VK_V (input_events inputs)"
    if "SendInput inputs \<in> set (snd (windows_main we wargv))" for inputs
    using windows_main_inputs [OF that] well_nested_input_events by (simp split: if_splits)
  from well_nested_xtest_sequence [of e use_shift] x11_shift x11_main uinput uinput_shift
    well_nested_input_events win_shift win_main
  show ?thesis by blast
qed

theorem paste_sequences_well_nested_witness:
  "keysym_to_keycode desktop XK_v \<noteq> keysym_to_keycode desktop XK_Control_L
   \<and> keysym_to_keycode desktop XK_v \<noteq> keysym_to_keycode desktop XK_Shift_L
   \<and> \<not> use_uinput (arguments_of [''linux-fast-paste'', ''--terminal''])
   \<and> open_display desktop \<and> xtest_query_extension desktop
   \<and> fst (paste_via_uinput desktop True) = 0
   \<and> SendInput SendPasteTerminal_inputs
        \<in> set (snd (windows_main console_session [''windows-fast-paste.exe'']))
   \<and> well_nested 37 50 55 (xtest_events (xtest_sequence desktop True))
   \<and> (50, True) \<in> set (xtest_events (xtest_sequence desktop True))
   \<and> well_nested 37 50 55
        (xtest_events (snd (linux_main desktop [''linux-fast-paste'', ''--terminal''])))
   \<and> well_nested KEY_LEFTCTRL KEY_LEFTSHIFT KEY_V
        (uinput_events (snd (paste_via_uinput desktop True)))
   \<and> (KEY_LEFTSHIFT, True) \<in> set (uinput_events (snd (paste_via_uinput desktop True)))
   \<and> well_nested VK_CONTROL VK_SHIFT VK_V (input_events SendPasteTerminal_inputs)"
proof -
  have keys: "keysym_to_keycode desktop XK_Control_L = 37" "keysym_to_keycode desktop XK_Shift_L = 50"
    "keysym_to_keycode desktop XK_v = 55"
    and d: "open_display desktop" "xtest_query_extension desktop"
    by (simp_all add: desktop_def)
  have a: "\<not> use_uinput (arguments_of [''linux-fast-paste'', ''--terminal''])"
    by (simp add: arguments_of_def)
  from paste_sequences_well_nested
         [of desktop True "[''linux-fast-paste'', ''--terminal'']" console_session
             "[''windows-fast-paste.exe'']"]
       keys d a desktop_uinput_ok [of True] console_session_sends_terminal_inputs
  show ?thesis by simp
qed

text \<open>
  C3, as stated, fails: where the user lacks permission for \<open>/dev/uinput\<close> the refusal
  comes from \<open>open\<close>, and the program invoked with \<open>--uinput\<close> exits with status 3, not 4.
\<close>

theorem permission_denied_counterexample:
  "use_uinput (arguments_of [''linux-fast-paste'', ''--uinput''])
   \<and> HAVE_UINPUT permission_denied
   \<and> open_ret permission_denied < 0
   \<and> fst (linux_main permission_denied [''linux-fast-paste'', ''--uinput'']) = 3
   \<and> fst (linux_main permission_denied [''linux-fast-paste'', ''--uinput'']) \<noteq> 4"
proof -
  have a: "use_uinput (arguments_of [''linux-fast-paste'', ''--uinput''])"
    by (simp add: arguments_of_def)
  have e: "HAVE_UINPUT permission_denied" "open_ret permission_denied < 0"
    by (simp_all add: permission_denied_def desktop_def)
  have "fst (linux_main permission_denied [''linux-fast-paste'', ''--uinput'']) = 3"
    using a e by (simp add: linux_main_unfold paste_via_uinput_unfold)
  with a e show ?thesis by simp
qed

text \<open>
  C3, amended. With \<open>--uinput\<close>, in a build with \<open>HAVE_UINPUT\<close>, a refused virtual device
  never leaves partial key events, and the exit status tells where it was refused: 3 when
  \<open>/dev/uinput\<close> cannot be opened, 4 when it opens but the \<open>UI_DEV_CREATE\<close> ioctl fails.
\<close>

theorem uinput_refusal_exit_status:
  assumes "use_uinput (arguments_of argv)" and "HAVE_UINPUT e"
  shows "(open_ret e < 0 \<longrightarrow>
            fst (linux_main e argv) = 3 \<and> filter is_key_call (snd (linux_main e argv)) = [])
       \<and> (0 \<le> open_ret e \<and> ioctl_ret e UI_DEV_CREATE < 0 \<longrightarrow>
            fst (linux_main e argv) = 4 \<and> filter is_key_call (snd (linux_main e argv)) = [])"
proof -
  let ?run = "paste_via_uinput e (force_terminal (arguments_of argv))"
  have main: "linux_main e argv = ?run"
    using assms by (simp add: linux_main_unfold)
  have silent: "filter is_key_call (snd ?run) = []" if "fst ?run \<noteq> 0"
    using that by (rule key_calls_paste_via_uinput_failed)
  have at_open: "fst ?run = 3" if "open_ret e < 0"
    using that by (simp add: paste_via_uinput_unfold)
  have at_create: "fst ?run = 4" if "0 \<le> open_ret e" and "ioctl_ret e UI_DEV_CREATE < 0"
    using that(1) creation_requests_failed [OF that(2)]
    by (simp add: paste_via_uinput_unfold)
  have "fst ?run = 3 \<and> filter is_key_call (snd ?run) = []" if "open_ret e < 0"
    using at_open [OF that] silent by simp
  moreover have "fst ?run = 4 \<and> filter is_key_call (snd ?run) = []"
    if "0 \<le> open_ret e \<and> ioctl_ret e UI_DEV_CREATE < 0"
    using at_create that silent by simp
  ultimately show ?thesis
    unfolding main by blast
qed

theorem uinput_refusal_exit_status_witness:
  "use_uinput (arguments_of [''linux-fast-paste'', ''--uinput'', ''--terminal''])
   \<and> HAVE_UINPUT creation_denied \<and> 0 \<le> open_ret creation_denied
   \<and> ioctl_ret creation_denied UI_DEV_CREATE < 0
   \<and> fst (linux_main creation_denied [''linux-fast-paste'', ''--uinput'', ''--terminal'']) = 4
   \<and> filter is_key_call
        (snd (linux_main creation_denied [''linux-fast-paste'', ''--uinput'', ''--terminal''])) = []
   \<and> HAVE_UINPUT permission_denied \<and> open_ret permission_denied < 0
   \<and> fst (linux_main permission_denied [''linux-fast-paste'', ''--uinput'', ''--terminal'']) = 3
   \<and> filter is_key_call
        (snd (linux_main permission_denied [''linux-fast-paste'', ''--uinput'', ''--terminal''])) = []"
proof -
  have h1: "use_uinput (arguments_of [''linux-fast-paste'', ''--uinput'', ''--terminal''])"
    by (simp add: arguments_of_def)
  have h2: "HAVE_UINPUT creation_denied" and h3: "0 \<le> open_ret creation_denied"
    and h4: "ioctl_ret creation_denied UI_DEV_CREATE < 0"
    by (simp_all add: creation_denied_def desktop_def)
  have g2: "HAVE_UINPUT permission_denied" and g3: "open_ret permission_denied < 0"
    by (simp_all add: permission_denied_def desktop_def)
  from uinput_refusal_exit_status [OF h1 h2] uinput_refusal_exit_status [OF h1 g2]
       h1 h2 h3 h4 g2 g3
  show ?thesis by simp
qed

text \<open>
  C4. \<open>IsTerminalClass\<close> is true exactly when the class name equals one of the ten
  entries of \<open>TERMINAL_CLASSES\<close> up to letter case: the whole name, not a part of it.
  \<open>ConsoleWindowClass\<close> is a terminal class, \<open>Chrome_WidgetWin_1\<close> is not, and neither is
  a name that merely contains an entry.
\<close>

theorem IsTerminalClass_exact_match:
  "(IsTerminalClass className \<longleftrightarrow>
      (\<exists>t \<in> set TERMINAL_CLASSES. map tolower className = map tolower t))
   \<and> length TERMINAL_CLASSES = 10
   \<and> IsTerminalClass ''ConsoleWindowClass''
   \<and> \<not> IsTerminalClass ''Chrome_WidgetWin_1''
   \<and> \<not> IsTerminalClass ''ConsoleWindowClass2''"
proof -
  have general: "IsTerminalClass className \<longleftrightarrow>
      (\<exists>t \<in> set TERMINAL_CLASSES. map tolower className = map tolower t)"
    by (simp add: IsTerminalClass_def IsTerminalClass_loop_iff)
  have size: "length TERMINAL_CLASSES = 10"
    by (simp add: TERMINAL_CLASSES_def)
  have console: "IsTerminalClass ''ConsoleWindowClass''"
    by code_simp
  have chrome: "\<not> IsTerminalClass ''Chrome_WidgetWin_1''"
    by code_simp
  have longer: "\<not> IsTerminalClass ''ConsoleWindowClass2''"
    by code_simp
  from general size console chrome longer show ?thesis by blast
qed

theorem IsTerminalClass_exact_match_witness:
  "IsTerminalClass ''MINTTY''
   \<and> (\<exists>t \<in> set TERMINAL_CLASSES. map tolower ''MINTTY'' = map tolower t)"
proof -
  have "IsTerminalClass ''MINTTY''" by code_simp
  with IsTerminalClass_exact_match [of "''MINTTY''"] show ?thesis by blast
qed

text \<open>
  C5. Whenever \<open>/dev/uinput\<close> was opened, \<open>paste_via_uinput\<close> closes the descriptor:
  \<open>close(fd)\<close> is its last call and is made exactly once, on every path. If one of the
  capability, setup or creation ioctls fails, the function returns the error status 4 and
  has emitted no key event.
\<close>

theorem uinput_descriptor_closed_on_every_path:
  "(0 \<le> open_ret e \<longrightarrow>
      last (snd (paste_via_uinput e use_shift)) = Close (open_ret e)
      \<and> count_list (snd (paste_via_uinput e use_shift)) (Close (open_ret e)) = 1)
   \<and> (0 \<le> open_ret e
        \<and> (\<exists>r \<in> set (capability_requests @ creation_requests). ioctl_ret e r < 0) \<longrightarrow>
        fst (paste_via_uinput e use_shift) = 4
        \<and> filter is_key_call (snd (paste_via_uinput e use_shift)) = [])"
proof -
  have closed: "last (snd (paste_via_uinput e use_shift)) = Close (open_ret e)"
    if "0 \<le> open_ret e"
    using that by (simp add: paste_via_uinput_unfold)
  have once: "count_list (snd (paste_via_uinput e use_shift)) (Close (open_ret e)) = 1"
    if "0 \<le> open_ret e"
    using that
    by (simp add: paste_via_uinput_unfold count_Close_ioctl_chain count_Close_uinput_sequence)
  have failed: "fst (paste_via_uinput e use_shift) = 4"
    if "0 \<le> open_ret e" "\<exists>r \<in> set (capability_requests @ creation_requests). ioctl_ret e r < 0"
    using that by (auto simp add: paste_via_uinput_unfold ioctl_chain_failed)
  have silent: "filter is_key_call (snd (paste_via_uinput e use_shift)) = []"
    if "0 \<le> open_ret e" "\<exists>r \<in> set (capability_requests @ creation_requests). ioctl_ret e r < 0"
    using failed [OF that] by (simp add: key_calls_paste_via_uinput_failed)
  from closed once failed silent show ?thesis by blast
qed

theorem uinput_descriptor_closed_on_every_path_witness:
  "0 \<le> open_ret creation_denied
   \<and> (\<exists>r \<in> set (capability_requests @ creation_requests). ioctl_ret creation_denied r < 0)
   \<and> last (snd (paste_via_uinput creation_denied False)) = Close 3
   \<and> count_list (snd (paste_via_uinput creation_denied False)) (Close 3) = 1
   \<and> fst (paste_via_uinput creation_denied False) = 4
   \<and> filter is_key_call (snd (paste_via_uinput creation_denied False)) = []"
proof -
  have h1: "0 \<le> open_ret creation_denied" and fd: "open_ret creation_denied = 3"
    by (simp_all add: creation_denied_def desktop_def)
  have h2: "\<exists>r \<in> set (capability_requests @ creation_requests). ioctl_ret creation_denied r < 0"
    by (simp add: creation_denied_def desktop_def creation_requests_def)
  from uinput_descriptor_closed_on_every_path [of creation_denied False] h1 h2 fd
  show ?thesis by simp
qed

text \<open>
  C6, as stated, fails: with \<open>--uinput\<close> the program synthesizes the key sequence without
  asking for the active window or for any window class.
\<close>

theorem synthesis_without_resolution_counterexample:
  "filter is_key_call (snd (linux_main desktop [''linux-fast-paste'', ''--uinput''])) \<noteq> []
   \<and> filter is_window_query (snd (linux_main desktop [''linux-fast-paste'', ''--uinput''])) = []
   \<and> filter is_class_query (snd (linux_main desktop [''linux-fast-paste'', ''--uinput''])) = []"
proof -
  have run: "linux_main desktop [''linux-fast-paste'', ''--uinput''] = paste_via_uinput desktop False"
    by (simp add: linux_main_unfold arguments_of_def desktop_def)
  show ?thesis
    using paste_via_uinput_has_keys [OF desktop_uinput_ok [of False]]
      paste_via_uinput_no_x_calls [of desktop False]
    by (simp add: run)
qed

text \<open>
  C6, amended. On the display-server backend (no \<open>--uinput\<close>) the target window is settled
  before the first key event: without a non-zero \<open>--window\<close> id by the active-window or
  input-focus query, with one by activating that window. Unless \<open>--terminal\<close> is given or
  the window is \<open>None\<close>, the class hint is queried before the first key event. When the
  display and XTest are available the key events are those of the Ctrl+Shift+V variant
  exactly when \<open>--terminal\<close> is given or \<open>is_terminal\<close> accepts \<open>res_class\<close> or
  \<open>res_name\<close> of a readable class hint. With \<open>--uinput\<close> no window or class is queried and
  \<open>--terminal\<close> alone selects the variant. On Windows \<open>GetForegroundWindow\<close> and
  \<open>GetClassNameA\<close> come before any \<open>SendInput\<close>, and the array submitted is the terminal
  one exactly when \<open>IsTerminalClass\<close> accepts the class name.
\<close>

theorem resolution_precedes_synthesis:
  "(let a = arguments_of argv;
        t = snd (linux_main e argv);
        win = fst (resolve_window e (target_window a));
        tw = snd (windows_main we wargv)
    in (\<not> use_uinput a \<and> target_window a = 0 \<longrightarrow> precedes is_window_query is_key_call t)
     \<and> (\<not> use_uinput a \<and> target_window a \<noteq> 0 \<longrightarrow>
          precedes (\<lambda>c. c = XSetInputFocus (target_window a)) is_key_call t)
     \<and> (\<not> use_uinput a \<and> \<not> force_terminal a \<and> win \<noteq> 0 \<longrightarrow>
          precedes is_class_query is_key_call t)
     \<and> (\<not> use_uinput a \<and> open_display e \<and> xtest_query_extension e \<longrightarrow>
          xtest_events t =
            xtest_events (xtest_sequence e
              (force_terminal a
               \<or> (win \<noteq> 0
                   \<and> (case get_class_hint e win of
                         None \<Rightarrow> False
                       | Some (res_name, res_class) \<Rightarrow>
                           is_terminal res_class \<or> is_terminal res_name)))))
     \<and> (use_uinput a \<longrightarrow>
          filter is_window_query t = [] \<and> filter is_class_query t = []
          \<and> (fst (linux_main e argv) = 0 \<longrightarrow>
                uinput_events t = uinput_events (uinput_sequence (open_ret e) (force_terminal a))))
     \<and> precedes (\<lambda>c. c = GetForegroundWindow) is_SendInput tw
     \<and> precedes (\<lambda>c. c = GetClassNameA (foreground_window we) 256) is_SendInput tw
     \<and> (\<forall>inputs. SendInput inputs \<in> set tw \<longrightarrow>
          inputs = (if IsTerminalClass (class_name_of we (foreground_window we))
                    then SendPasteTerminal_inputs else SendPasteNormal_inputs)))"
proof -
  let ?a = "arguments_of argv"
  let ?t = "snd (linux_main e argv)"
  let ?win = "fst (resolve_window e (target_window ?a))"
  let ?choice = "choose_use_shift e (force_terminal ?a) ?win"
  have no_keys_early: "filter is_key_call ?t = []"
    if "\<not> use_uinput ?a" "\<not> (open_display e \<and> xtest_query_extension e)"
    using that by (auto simp add: linux_main_unfold)
  have shape: "?t = [XOpenDisplay, XTestQueryExtension]
                 @ snd (resolve_window e (target_window ?a)) @ snd ?choice
                 @ xtest_sequence e (fst ?choice)"
    if "\<not> use_uinput ?a" "open_display e \<and> xtest_query_extension e"
    using that by (simp add: linux_main_unfold)
  have query: "precedes is_window_query is_key_call ?t"
    if u: "\<not> use_uinput ?a" and z: "target_window ?a = 0"
  proof (cases "open_display e \<and> xtest_query_extension e")
    case True
    have "precedes is_window_query is_key_call
            (snd (get_active_window e) @ snd ?choice @ xtest_sequence e (fst ?choice))"
      using get_active_window_queries [of e] by (intro precedes_append_found) simp_all
    then show ?thesis
      using shape [OF u True] z by (simp add: resolve_window_def)
  next
    case False
    then show ?thesis using no_keys_early [OF u] by (intro precedes_none) simp
  qed
  have activation: "precedes (\<lambda>c. c = XSetInputFocus (target_window ?a)) is_key_call ?t"
    if u: "\<not> use_uinput ?a" and nz: "target_window ?a \<noteq> 0"
  proof (cases "open_display e \<and> xtest_query_extension e")
    case True
    have "precedes (\<lambda>c. c = XSetInputFocus (target_window ?a)) is_key_call
            (activate_window e (target_window ?a) @ snd ?choice @ xtest_sequence e (fst ?choice))"
      using activate_window_calls [of "target_window ?a" e]
      by (intro precedes_append_found) simp_all
    then show ?thesis
      using shape [OF u True] nz by (simp add: resolve_window_def)
  next
    case False
    then show ?thesis using no_keys_early [OF u] by (intro precedes_none) simp
  qed
  have class_query: "precedes is_class_query is_key_call ?t"
    if u: "\<not> use_uinput ?a" and f: "\<not> force_terminal ?a" and w: "?win \<noteq> 0"
  proof (cases "open_display e \<and> xtest_query_extension e")
    case True
    have skip: "filter is_class_query (snd (resolve_window e (target_window ?a))) = []"
      by (simp add: resolve_window_def activate_window_def get_active_window_def
            focus_fallback_def Let_def split: option.splits)
    have "precedes is_class_query is_key_call (snd ?choice @ xtest_sequence e (fst ?choice))"
      using choose_use_shift_queries [OF f w, of e] by (intro precedes_append_found) simp_all
    then have "precedes is_class_query is_key_call
        (snd (resolve_window e (target_window ?a)) @ snd ?choice @ xtest_sequence e (fst ?choice))"
      using skip resolve_window_no_keys [of e "target_window ?a"]
      by (simp add: precedes_append_skip)
    then show ?thesis
      using shape [OF u True] by simp
  next
    case False
    then show ?thesis using no_keys_early [OF u] by (intro precedes_none) simp
  qed
  have variant: "xtest_events ?t =
      xtest_events (xtest_sequence e
        (force_terminal ?a
         \<or> (?win \<noteq> 0
             \<and> (case get_class_hint e ?win of
                   None \<Rightarrow> False
                 | Some (res_name, res_class) \<Rightarrow> is_terminal res_class \<or> is_terminal res_name))))"
    if u: "\<not> use_uinput ?a" and ok: "open_display e \<and> xtest_query_extension e"
    using shape [OF u ok]
    by (simp add: xtest_events_append resolve_window_no_keys choose_use_shift_no_keys
          fst_choose_use_shift)
  have uinput: "filter is_window_query ?t = [] \<and> filter is_class_query ?t = []
      \<and> (fst (linux_main e argv) = 0 \<longrightarrow>
            uinput_events ?t = uinput_events (uinput_sequence (open_ret e) (force_terminal ?a)))"
    if "use_uinput ?a"
    using that
    by (simp add: linux_main_unfold paste_via_uinput_no_x_calls uinput_events_paste_via_uinput)
  from query activation class_query variant uinput windows_main_order [of we wargv]
    windows_main_inputs [of _ we wargv]
  show ?thesis unfolding Let_def by blast
qed

theorem resolution_precedes_synthesis_witness:
  "\<not> use_uinput (arguments_of [''linux-fast-paste''])
   \<and> target_window (arguments_of [''linux-fast-paste'']) = 0
   \<and> \<not> force_terminal (arguments_of [''linux-fast-paste''])
   \<and> fst (resolve_window desktop 0) \<noteq> 0
   \<and> open_display desktop \<and> xtest_query_extension desktop
   \<and> precedes is_window_query is_key_call (snd (linux_main desktop [''linux-fast-paste'']))
   \<and> precedes is_class_query is_key_call (snd (linux_main desktop [''linux-fast-paste'']))
   \<and> xtest_events (snd (linux_main desktop [''linux-fast-paste''])) =
        [(37, True), (50, True), (55, True), (55, False), (50, False), (37, False)]
   \<and> SendInput SendPasteTerminal_inputs
        \<in> set (snd (windows_main console_session [''windows-fast-paste.exe'']))
   \<and> precedes (\<lambda>c. c = GetForegroundWindow) is_SendInput
        (snd (windows_main console_session [''windows-fast-paste.exe'']))
   \<and> \<not> use_uinput (arguments_of [''linux-fast-paste'', ''--window'', ''0x2400007''])
   \<and> target_window (arguments_of [''linux-fast-paste'', ''--window'', ''0x2400007'']) \<noteq> 0
   \<and> precedes (\<lambda>c. c = XSetInputFocus 37748743) is_key_call
        (snd (linux_main desktop [''linux-fast-paste'', ''--window'', ''0x2400007'']))
   \<and> use_uinput (arguments_of [''linux-fast-paste'', ''--uinput'', ''--terminal''])
   \<and> fst (linux_main desktop [''linux-fast-paste'', ''--uinput'', ''--terminal'']) = 0
   \<and> filter is_window_query
        (snd (linux_main desktop [''linux-fast-paste'', ''--uinput'', ''--terminal''])) = []
   \<and> uinput_events (snd (linux_main desktop [''linux-fast-paste'', ''--uinput'', ''--terminal''])) =
        [(KEY_LEFTCTRL, True), (KEY_LEFTSHIFT, True), (KEY_V, True),
         (KEY_V, False), (KEY_LEFTSHIFT, False), (KEY_LEFTCTRL, False)]"
proof -
  have a: "\<not> use_uinput (arguments_of [''linux-fast-paste''])"
    "target_window (arguments_of [''linux-fast-paste'']) = 0"
    "\<not> force_terminal (arguments_of [''linux-fast-paste''])"
    by (simp_all add: arguments_of_def)
  have w: "fst (resolve_window desktop 0) = 37748743"
    by (simp add: resolve_window_def get_active_window_def focus_fallback_def desktop_def)
  have d: "open_display desktop" "xtest_query_extension desktop" "HAVE_UINPUT desktop"
    "get_class_hint desktop 37748743 = Some (Some ''gnome-terminal-server'', Some ''Gnome-terminal'')"
    "keysym_to_keycode desktop XK_Control_L = 37" "keysym_to_keycode desktop XK_Shift_L = 50"
    "keysym_to_keycode desktop XK_v = 55"
    by (simp_all add: desktop_def)
  have gnome: "is_terminal (Some ''Gnome-terminal'')"
    by code_simp
  have first: "precedes is_window_query is_key_call (snd (linux_main desktop [''linux-fast-paste'']))
      \<and> precedes is_class_query is_key_call (snd (linux_main desktop [''linux-fast-paste'']))
      \<and> xtest_events (snd (linux_main desktop [''linux-fast-paste''])) =
        [(37, True), (50, True), (55, True), (55, False), (50, False), (37, False)]
      \<and> precedes (\<lambda>c. c = GetForegroundWindow) is_SendInput
        (snd (windows_main console_session [''windows-fast-paste.exe'']))"
    using resolution_precedes_synthesis
            [of "[''linux-fast-paste'']" desktop console_session "[''windows-fast-paste.exe'']"]
          a w d gnome
    by (simp add: Let_def xtest_events_xtest_sequence)
  have b: "\<not> use_uinput (arguments_of [''linux-fast-paste'', ''--window'', ''0x2400007''])"
    "target_window (arguments_of [''linux-fast-paste'', ''--window'', ''0x2400007'']) = 37748743"
    by (simp_all add: arguments_of_def strtoul_hex_example)
  have second: "precedes (\<lambda>c. c = XSetInputFocus 37748743) is_key_call
        (snd (linux_main desktop [''linux-fast-paste'', ''--window'', ''0x2400007'']))"
    using resolution_precedes_synthesis
            [of "[''linux-fast-paste'', ''--window'', ''0x2400007'']" desktop console_session
                "[''windows-fast-paste.exe'']"] b
    by (simp add: Let_def)
  have c: "use_uinput (arguments_of [''linux-fast-paste'', ''--uinput'', ''--terminal''])"
    "force_terminal (arguments_of [''linux-fast-paste'', ''--uinput'', ''--terminal''])"
    by (simp_all add: arguments_of_def)
  have code: "fst (linux_main desktop [''linux-fast-paste'', ''--uinput'', ''--terminal'']) = 0"
    using c d(3) desktop_uinput_ok [of True] by (simp add: linux_main_unfold)
  have third: "filter is_window_query
        (snd (linux_main desktop [''linux-fast-paste'', ''--uinput'', ''--terminal''])) = []
      \<and> uinput_events (snd (linux_main desktop [''linux-fast-paste'', ''--uinput'', ''--terminal''])) =
        [(KEY_LEFTCTRL, True), (KEY_LEFTSHIFT, True), (KEY_V, True),
         (KEY_V, False), (KEY_LEFTSHIFT, False), (KEY_LEFTCTRL, False)]"
    using resolution_precedes_synthesis
            [of "[''linux-fast-paste'', ''--uinput'', ''--terminal'']" desktop console_session
                "[''windows-fast-paste.exe'']"] c code
    by (simp add: Let_def uinput_events_uinput_sequence)
  from first second third a b c code w d(1,2) console_session_sends_terminal_inputs
  show ?thesis by simp
qed

text \<open>
  C7. On the display-server backend (no \<open>--uinput\<close>): if the display cannot be opened
  the program exits with status 1, and if the display opens but the XTest extension is
  missing it exits with status 2; in both cases no key event is synthesized.
\<close>

theorem display_backend_fails_closed:
  assumes "\<not> use_uinput (arguments_of argv)"
  shows "(\<not> open_display e \<longrightarrow>
            fst (linux_main e argv) = 1 \<and> filter is_key_call (snd (linux_main e argv)) = [])
       \<and> (open_display e \<and> \<not> xtest_query_extension e \<longrightarrow>
            fst (linux_main e argv) = 2 \<and> filter is_key_call (snd (linux_main e argv)) = [])"
  using assms by (simp add: linux_main_unfold)

theorem display_backend_fails_closed_witness:
  "\<not> use_uinput (arguments_of [''linux-fast-paste'', ''--window'', ''0x2400007''])
   \<and> \<not> open_display (desktop\<lparr>open_display := False\<rparr>)
   \<and> fst (linux_main (desktop\<lparr>open_display := False\<rparr>)
            [''linux-fast-paste'', ''--window'', ''0x2400007'']) = 1
   \<and> filter is_key_call (snd (linux_main (desktop\<lparr>open_display := False\<rparr>)
            [''linux-fast-paste'', ''--window'', ''0x2400007''])) = []
   \<and> open_display (desktop\<lparr>xtest_query_extension := False\<rparr>)
   \<and> \<not> xtest_query_extension (desktop\<lparr>xtest_query_extension := False\<rparr>)
   \<and> fst (linux_main (desktop\<lparr>xtest_query_extension := False\<rparr>)
            [''linux-fast-paste'', ''--window'', ''0x2400007'']) = 2
   \<and> filter is_key_call (snd (linux_main (desktop\<lparr>xtest_query_extension := False\<rparr>)
            [''linux-fast-paste'', ''--window'', ''0x2400007''])) = []"
proof -
  have h: "\<not> use_uinput (arguments_of [''linux-fast-paste'', ''--window'', ''0x2400007''])"
    by (simp add: arguments_of_def)
  have d: "open_display desktop"
    by (simp add: desktop_def)
  from display_backend_fails_closed [OF h, of "desktop\<lparr>open_display := False\<rparr>"]
       display_backend_fails_closed [OF h, of "desktop\<lparr>xtest_query_extension := False\<rparr>"]
       h d
  show ?thesis by simp
qed

text \<open>
  C8. The Windows binary with \<open>--detect-only\<close>, when there is a foreground window whose
  class name is not empty, queries the window and its class, prints
  \<open>WINDOW_CLASS <name>\<close> and \<open>IS_TERMINAL true\<close> or \<open>IS_TERMINAL false\<close>, flushes, and
  exits with status 0; it never calls \<open>SendInput\<close>.
\<close>

theorem detect_only_sends_no_input:
  assumes "''--detect-only'' \<in> set (drop 1 argv)"
    and "foreground_window e \<noteq> 0"
    and "class_name_of e (foreground_window e) \<noteq> []"
  shows "windows_main e argv =
           (0, [GetForegroundWindow,
                GetClassNameA (foreground_window e) 256,
                Printf (''WINDOW_CLASS '' @ class_name_of e (foreground_window e) @ ''\<newline>''),
                Printf (''IS_TERMINAL ''
                  @ (if IsTerminalClass (class_name_of e (foreground_window e))
                     then ''true'' else ''false'') @ ''\<newline>''),
                Fflush_stdout])
         \<and> filter is_SendInput (snd (windows_main e argv)) = []"
  using assms by (simp add: windows_main_def Let_def detect_only_loop_iff)

theorem detect_only_sends_no_input_witness:
  "''--detect-only'' \<in> set (drop 1 [''windows-fast-paste.exe'', ''--detect-only''])
   \<and> foreground_window console_session \<noteq> 0
   \<and> class_name_of console_session (foreground_window console_session) \<noteq> []
   \<and> windows_main console_session [''windows-fast-paste.exe'', ''--detect-only''] =
       (0, [GetForegroundWindow, GetClassNameA 0x50a2c 256,
            Printf ''WINDOW_CLASS ConsoleWindowClass\<newline>'',
            Printf ''IS_TERMINAL true\<newline>'',
            Fflush_stdout])
   \<and> filter is_SendInput
        (snd (windows_main console_session [''windows-fast-paste.exe'', ''--detect-only''])) = []"
proof -
  have h1: "''--detect-only'' \<in> set (drop 1 [''windows-fast-paste.exe'', ''--detect-only''])"
    by simp
  have h2: "foreground_window console_session \<noteq> 0"
    and h3: "class_name_of console_session (foreground_window console_session) \<noteq> []"
    by (simp_all add: console_session_def)
  have t: "IsTerminalClass ''ConsoleWindowClass''" by code_simp
  have v: "foreground_window console_session = 0x50a2c"
    "class_name_of console_session 0x50a2c = ''ConsoleWindowClass''"
    by (simp_all add: console_session_def)
  from detect_only_sends_no_input [OF h1 h2 h3] h1 h2 h3 t v show ?thesis by simp
qed

text \<open>
  C9, as stated, fails: with \<open>--window 0x2400007 --uinput\<close> the key sequence is written to
  the virtual device and the window is never activated; with \<open>--window 0\<close> the id is the X
  constant \<open>None\<close>, and the display-server backend synthesizes without activation.
\<close>

theorem window_flag_counterexample:
  "filter is_key_call
     (snd (linux_main desktop [''linux-fast-paste'', ''--window'', ''0x2400007'', ''--uinput''])) \<noteq> []
   \<and> filter is_activation_call
     (snd (linux_main desktop [''linux-fast-paste'', ''--window'', ''0x2400007'', ''--uinput''])) = []
   \<and> filter is_key_call (snd (linux_main desktop [''linux-fast-paste'', ''--window'', ''0''])) \<noteq> []
   \<and> filter is_activation_call
     (snd (linux_main desktop [''linux-fast-paste'', ''--window'', ''0''])) = []"
proof -
  have a1: "use_uinput (arguments_of [''linux-fast-paste'', ''--window'', ''0x2400007'', ''--uinput''])"
    by (simp add: arguments_of_def)
  have d: "HAVE_UINPUT desktop" "open_display desktop" "xtest_query_extension desktop"
    by (simp_all add: desktop_def)
  have run1: "linux_main desktop [''linux-fast-paste'', ''--window'', ''0x2400007'', ''--uinput'']
      = paste_via_uinput desktop False"
    using d(1) by (simp add: linux_main_unfold arguments_of_def)
  have a2: "\<not> use_uinput (arguments_of [''linux-fast-paste'', ''--window'', ''0''])"
    "target_window (arguments_of [''linux-fast-paste'', ''--window'', ''0'']) = 0"
    by (simp_all add: arguments_of_def strtoul_zero_example)
  show ?thesis
    using paste_via_uinput_has_keys [OF desktop_uinput_ok [of False]]
      paste_via_uinput_no_x_calls [of desktop False]
      display_run_has_keys [OF a2(1) d(2) d(3)] no_activation_without_target [OF a2(2), of desktop]
    by (simp add: run1)
qed

text \<open>
  C9, amended. When \<open>--window <id>\<close> is given without \<open>--uinput\<close> and the id parses to a
  non-zero value, no key event comes before the forced focus that ends \<open>activate_window\<close>.
  In every such run that gets past the display and XTest checks, \<open>activate_window\<close> is
  the first thing done and the key events follow it: the \<open>_NET_ACTIVE_WINDOW\<close> client
  message goes to the root window, the connection is flushed, the program sleeps 50 ms,
  and then sets the input focus to the target. The id is read by \<open>strtoul\<close> with base 0:
  decimal, octal with a leading \<open>0\<close> or hexadecimal with a leading \<open>0x\<close>.
\<close>

theorem window_flag_activates_before_synthesis:
  assumes "\<not> use_uinput (arguments_of argv)" and "target_window (arguments_of argv) \<noteq> 0"
  shows "precedes (\<lambda>c. c = XSetInputFocus (target_window (arguments_of argv))) is_key_call
           (snd (linux_main e argv))
       \<and> (open_display e \<and> xtest_query_extension e \<longrightarrow>
            (\<exists>rest. snd (linux_main e argv) =
               [XOpenDisplay, XTestQueryExtension,
                XInternAtom ''_NET_ACTIVE_WINDOW'' False,
                XSendEvent (default_root_window e)
                  [SubstructureNotifyMask, SubstructureRedirectMask]
                  \<lparr>xclient_window = target_window (arguments_of argv),
                   xclient_message_type = intern_atom e ''_NET_ACTIVE_WINDOW'' False,
                   xclient_format = 32, xclient_data_l = [2, 0, 0, 0, 0]\<rparr>,
                XFlush,
                Usleep 50000,
                XSetInputFocus (target_window (arguments_of argv)),
                XFlush,
                Usleep 20000] @ rest
               \<and> filter is_key_call rest \<noteq> []))
       \<and> target_window (arguments_of [''linux-fast-paste'', ''--window'', ''37748743'']) = 37748743
       \<and> target_window (arguments_of [''linux-fast-paste'', ''--window'', ''0x2400007'']) = 37748743
       \<and> target_window (arguments_of [''linux-fast-paste'', ''--window'', ''0220000007'']) = 37748743"
proof -
  let ?w = "target_window (arguments_of argv)"
  let ?rest = "snd (choose_use_shift e (force_terminal (arguments_of argv)) ?w)
               @ xtest_sequence e (fst (choose_use_shift e (force_terminal (arguments_of argv)) ?w))"
  have trace: "snd (linux_main e argv) =
      [XOpenDisplay, XTestQueryExtension,
       XInternAtom ''_NET_ACTIVE_WINDOW'' False,
       XSendEvent (default_root_window e)
         [SubstructureNotifyMask, SubstructureRedirectMask]
         \<lparr>xclient_window = ?w,
          xclient_message_type = intern_atom e ''_NET_ACTIVE_WINDOW'' False,
          xclient_format = 32, xclient_data_l = [2, 0, 0, 0, 0]\<rparr>,
       XFlush, Usleep 50000, XSetInputFocus ?w, XFlush, Usleep 20000] @ ?rest"
    if "open_display e \<and> xtest_query_extension e"
    using assms that
    by (simp add: linux_main_unfold resolve_window_def activate_window_def Let_def)
  have keys: "filter is_key_call ?rest \<noteq> []"
    by (simp add: xtest_sequence_has_keys)
  have parsed:
    "target_window (arguments_of [''linux-fast-paste'', ''--window'', ''37748743'']) = 37748743"
    "target_window (arguments_of [''linux-fast-paste'', ''--window'', ''0x2400007'']) = 37748743"
    "target_window (arguments_of [''linux-fast-paste'', ''--window'', ''0220000007'']) = 37748743"
    by (simp_all add: arguments_of_def strtoul_decimal_example strtoul_hex_example
          strtoul_octal_example)
  from activation_precedes_keys [OF assms, of e] trace keys parsed show ?thesis by blast
qed

theorem window_flag_activates_before_synthesis_witness:
  "\<not> use_uinput (arguments_of [''linux-fast-paste'', ''--window'', ''0x2400007''])
   \<and> target_window (arguments_of [''linux-fast-paste'', ''--window'', ''0x2400007'']) \<noteq> 0
   \<and> open_display desktop \<and> xtest_query_extension desktop
   \<and> precedes (\<lambda>c. c = XSetInputFocus 37748743) is_key_call
        (snd (linux_main desktop [''linux-fast-paste'', ''--window'', ''0x2400007'']))
   \<and> (\<exists>rest. snd (linux_main desktop [''linux-fast-paste'', ''--window'', ''0x2400007'']) =
          [XOpenDisplay, XTestQueryExtension,
           XInternAtom ''_NET_ACTIVE_WINDOW'' False,
           XSendEvent 0x1e7 [SubstructureNotifyMask, SubstructureRedirectMask]
             \<lparr>xclient_window = 37748743, xclient_message_type = 0x15f,
              xclient_format = 32, xclient_data_l = [2, 0, 0, 0, 0]\<rparr>,
           XFlush, Usleep 50000, XSetInputFocus 37748743, XFlush, Usleep 20000] @ rest
          \<and> filter is_key_call rest \<noteq> [])"
proof -
  have h1: "\<not> use_uinput (arguments_of [''linux-fast-paste'', ''--window'', ''0x2400007''])"
    by (simp add: arguments_of_def)
  have w: "target_window (arguments_of [''linux-fast-paste'', ''--window'', ''0x2400007'']) = 37748743"
    by (simp add: arguments_of_def strtoul_hex_example)
  then have h2: "target_window (arguments_of [''linux-fast-paste'', ''--window'', ''0x2400007'']) \<noteq> 0"
    by simp
  have h3: "open_display desktop" and h4: "xtest_query_extension desktop"
    and v: "default_root_window desktop = 0x1e7"
      "intern_atom desktop ''_NET_ACTIVE_WINDOW'' False = 0x15f"
    by (simp_all add: desktop_def)
  from window_flag_activates_before_synthesis [OF h1 h2, of desktop] h1 h2 h3 h4 w v
  show ?thesis by simp
qed

text \<open>
  C10. On the display-server backend, without \<open>--terminal\<close>: if no window is resolved
  (the active-window property and the input focus both give \<open>None\<close>), or the class hint
  of the resolved window cannot be read, the program still synthesizes plain Ctrl+V and
  exits with status 0, the status of every run of this backend that gets past the display
  and XTest checks.
\<close>

theorem resolution_failure_is_silent:
  assumes "\<not> use_uinput (arguments_of argv)" and "\<not> force_terminal (arguments_of argv)"
    and "open_display e" and "xtest_query_extension e"
    and "fst (resolve_window e (target_window (arguments_of argv))) = 0
         \<or> get_class_hint e (fst (resolve_window e (target_window (arguments_of argv)))) = None"
  shows "fst (linux_main e argv) = 0
       \<and> xtest_events (snd (linux_main e argv)) =
           [(keysym_to_keycode e XK_Control_L, True), (keysym_to_keycode e XK_v, True),
            (keysym_to_keycode e XK_v, False), (keysym_to_keycode e XK_Control_L, False)]
       \<and> (\<forall>e' argv'. \<not> use_uinput (arguments_of argv') \<and> open_display e'
             \<and> xtest_query_extension e' \<longrightarrow> fst (linux_main e' argv') = 0)"
proof -
  have plain: "\<not> fst (choose_use_shift e (force_terminal (arguments_of argv))
                    (fst (resolve_window e (target_window (arguments_of argv)))))"
    using assms(2,5) by (auto simp add: fst_choose_use_shift)
  have code: "fst (linux_main e argv) = 0"
    using assms(1,3,4) by (simp add: linux_main_unfold)
  have events: "xtest_events (snd (linux_main e argv)) =
           [(keysym_to_keycode e XK_Control_L, True), (keysym_to_keycode e XK_v, True),
            (keysym_to_keycode e XK_v, False), (keysym_to_keycode e XK_Control_L, False)]"
    using assms(1,3,4) plain
    by (simp add: linux_main_unfold xtest_events_append resolve_window_no_keys
          choose_use_shift_no_keys xtest_events_xtest_sequence Let_def)
  have same: "fst (linux_main e' argv') = 0"
    if "\<not> use_uinput (arguments_of argv') \<and> open_display e' \<and> xtest_query_extension e'"
    for e' argv'
    using that by (simp add: linux_main_unfold)
  from code events same show ?thesis by blast
qed

theorem resolution_failure_is_silent_witness:
  "\<not> use_uinput (arguments_of [''linux-fast-paste''])
   \<and> \<not> force_terminal (arguments_of [''linux-fast-paste''])
   \<and> open_display nothing_focused \<and> xtest_query_extension nothing_focused
   \<and> fst (resolve_window nothing_focused (target_window (arguments_of [''linux-fast-paste'']))) = 0
   \<and> fst (linux_main nothing_focused [''linux-fast-paste'']) = 0
   \<and> xtest_events (snd (linux_main nothing_focused [''linux-fast-paste''])) =
        [(37, True), (55, True), (55, False), (37, False)]
   \<and> open_display unreadable_class \<and> xtest_query_extension unreadable_class
   \<and> fst (resolve_window unreadable_class (target_window (arguments_of [''linux-fast-paste'']))) \<noteq> 0
   \<and> get_class_hint unreadable_class
        (fst (resolve_window unreadable_class (target_window (arguments_of [''linux-fast-paste''])))) = None
   \<and> fst (linux_main unreadable_class [''linux-fast-paste'']) = 0
   \<and> xtest_events (snd (linux_main unreadable_class [''linux-fast-paste''])) =
        [(37, True), (55, True), (55, False), (37, False)]"
proof -
  have h1: "\<not> use_uinput (arguments_of [''linux-fast-paste''])"
    and h2: "\<not> force_terminal (arguments_of [''linux-fast-paste''])"
    and t: "target_window (arguments_of [''linux-fast-paste'']) = 0"
    by (simp_all add: arguments_of_def)
  have h3: "open_display nothing_focused" and h4: "xtest_query_extension nothing_focused"
    and k: "keysym_to_keycode nothing_focused XK_Control_L = 37"
      "keysym_to_keycode nothing_focused XK_v = 55"
    by (simp_all add: nothing_focused_def desktop_def)
  have h5: "fst (resolve_window nothing_focused (target_window (arguments_of [''linux-fast-paste'']))) = 0"
    by (simp add: t resolve_window_def get_active_window_def focus_fallback_def
          nothing_focused_def desktop_def)
  have g3: "open_display unreadable_class" and g4: "xtest_query_extension unreadable_class"
    and gk: "keysym_to_keycode unreadable_class XK_Control_L = 37"
      "keysym_to_keycode unreadable_class XK_v = 55"
    and g5: "get_class_hint unreadable_class
        (fst (resolve_window unreadable_class (target_window (arguments_of [''linux-fast-paste''])))) = None"
    by (simp_all add: unreadable_class_def desktop_def)
  have g6: "fst (resolve_window unreadable_class (target_window (arguments_of [''linux-fast-paste'']))) = 37748743"
    by (simp add: t resolve_window_def get_active_window_def focus_fallback_def
          unreadable_class_def desktop_def)
  from resolution_failure_is_silent [OF h1 h2 h3 h4 disjI1 [OF h5]]
       resolution_failure_is_silent [OF h1 h2 g3 g4 disjI2 [OF g5]]
       h1 h2 h3 h4 h5 k g3 g4 g5 g6 gk
  show ?thesis by simp
qed

end
